theory Spec2Isabelle
  imports Complex_Main "HOL-Library.Word"
begin

section \<open>Values received from clients\<close>

text \<open>
  Messages and request bodies arrive as parsed JSON.  A JavaScript number is a double;
  every finite double is a rational, so numbers are values of type \<open>rat\<close> (infinities and
  NaN are left out).  A property that is absent reads as \<open>undefined\<close>, modelled as
  \<open>None\<close>.
\<close>

datatype json =
    JNull
  | JBool bool
  | JNum rat
  | JStr string
  | JArr "json list"
  | JObj "(string \<times> json) list"

text \<open>\<open>obj.k\<close> for the property names the coordinator reads (none of them exists on an
  array, a string, a number or a boolean).\<close>

fun get_prop :: "string \<Rightarrow> json \<Rightarrow> json option" where
  "get_prop k (JObj kvs) = map_of kvs k"
| "get_prop k j = None"

text \<open>\<open>obj.k = v\<close> on an object: an existing property keeps its place.\<close>

fun assign :: "'k \<Rightarrow> 'v \<Rightarrow> ('k \<times> 'v) list \<Rightarrow> ('k \<times> 'v) list" where
  "assign k v [] = [(k, v)]"
| "assign k v ((k', v') # kvs) =
     (if k' = k then (k, v) # kvs else (k', v') # assign k v kvs)"

fun set_prop :: "string \<Rightarrow> json \<Rightarrow> json \<Rightarrow> json" where
  "set_prop k v (JObj kvs) = JObj (assign k v kvs)"
| "set_prop k v j = j"

text \<open>JavaScript truthiness of a value read from a property.\<close>

fun truthy :: "json option \<Rightarrow> bool" where
  "truthy None = False"
| "truthy (Some JNull) = False"
| "truthy (Some (JBool b)) = b"
| "truthy (Some (JNum r)) = (r \<noteq> 0)"
| "truthy (Some (JStr s)) = (s \<noteq> [])"
| "truthy (Some (JArr xs)) = True"
| "truthy (Some (JObj kvs)) = True"

section \<open>Double arithmetic\<close>

text \<open>
  The arithmetic operators of JavaScript work on IEEE 754 doubles: the result of \<open>+\<close>,
  \<open>*\<close> and \<open>/\<close> is the exact result rounded to the nearest double, ties to the even
  significand.  A double has a significand of 53 bits; below \<open>2^-1022\<close> the spacing stays
  \<open>2^-1074\<close>.  Overflow to \<open>Infinity\<close> is left out.
\<close>

function bit_length :: "int \<Rightarrow> int" where
  "bit_length n = (if n \<le> 0 then 0 else 1 + bit_length (n div 2))"
  by pat_completeness auto
termination
  by (relation "measure nat") auto

declare bit_length.simps [simp del]

definition pow2 :: "int \<Rightarrow> rat" where
  "pow2 e = (if 0 \<le> e then 2 ^ nat e else 1 / 2 ^ nat (- e))"

text \<open>The \<open>e\<close> with \<open>2^e \<le> a < 2^(e + 1)\<close>, for a positive \<open>a\<close>.\<close>

definition binary_exponent :: "rat \<Rightarrow> int" where
  "binary_exponent a =
     (if 1 \<le> a then bit_length \<lfloor>a\<rfloor> - 1
      else (let k = bit_length \<lfloor>1 / a\<rfloor>
            in if pow2 (1 - k) \<le> a then 1 - k else - k))"

definition round_half_even :: "rat \<Rightarrow> int" where
  "round_half_even x =
     (let f = \<lfloor>x\<rfloor>; r = x - of_int f
      in if r < 1 / 2 then f else if 1 / 2 < r then f + 1 else if even f then f else f + 1)"

text \<open>The double nearest to a rational.\<close>

definition double :: "rat \<Rightarrow> rat" where
  "double q =
     (if q = 0 then 0
      else (let e = max (binary_exponent \<bar>q\<bar>) (- 1022);
                ulp = pow2 (e - 52)
            in sgn q * of_int (round_half_even (\<bar>q\<bar> / ulp)) * ulp))"

definition dadd :: "rat \<Rightarrow> rat \<Rightarrow> rat" where
  "dadd x y = double (x + y)"

definition dmul :: "rat \<Rightarrow> rat \<Rightarrow> rat" where
  "dmul x y = double (x * y)"

text \<open>Division by a divisor other than zero.\<close>

definition ddiv :: "rat \<Rightarrow> rat \<Rightarrow> rat" where
  "ddiv x y = double (x / y)"

section \<open>The host platform\<close>

text \<open>
  Three library functions of the platform are parameters of the model:
  \<open>digest\<close> is \<open>crypto.createHash('sha256').update(x).digest()\<close>, a 32-byte value;
  \<open>stringify\<close> is \<open>JSON.stringify\<close>;
  \<open>Math_pow\<close> is \<open>Math.pow\<close>, whose results the language leaves to the implementation.
\<close>

record host =
  digest :: "string \<Rightarrow> 256 word"
  stringify :: "json \<Rightarrow> string"
  Math_pow :: "rat \<Rightarrow> rat \<Rightarrow> rat"

section \<open>Protocol constants (shared/protocol.js)\<close>

definition MIN_POOL_SIZE :: nat where "MIN_POOL_SIZE = 2"
definition TARGET_BLOCK_TIME_MS :: int where "TARGET_BLOCK_TIME_MS = 360000"
definition DIFFICULTY_ADJUSTMENT_BLOCKS :: nat where "DIFFICULTY_ADJUSTMENT_BLOCKS = 10"
definition INITIAL_BLOCK_REWARD :: rat where "INITIAL_BLOCK_REWARD = 50"
definition HALVING_INTERVAL :: nat where "HALVING_INTERVAL = 210000"
definition DECIMALS :: nat where "DECIMALS = 8"
definition MIN_TRANSACTION_FEE :: rat where "MIN_TRANSACTION_FEE = 1 / 10000"
definition MAX_TRANSACTIONS_PER_BLOCK :: nat where "MAX_TRANSACTIONS_PER_BLOCK = 500"
definition ADDRESS_PREFIX :: string where "ADDRESS_PREFIX = ''BLX''"
definition MAX_PENDING_TRANSACTIONS :: nat where "MAX_PENDING_TRANSACTIONS = 10000"

section \<open>Hashing (shared/crypto.js)\<close>

text \<open>The digit characters of \<open>digest('hex')\<close>.\<close>

definition hexdigit :: "nat \<Rightarrow> char" where
  "hexdigit d =
     (if d = 0 then CHR ''0'' else if d = 1 then CHR ''1'' else if d = 2 then CHR ''2''
      else if d = 3 then CHR ''3'' else if d = 4 then CHR ''4'' else if d = 5 then CHR ''5''
      else if d = 6 then CHR ''6'' else if d = 7 then CHR ''7'' else if d = 8 then CHR ''8''
      else if d = 9 then CHR ''9'' else if d = 10 then CHR ''a'' else if d = 11 then CHR ''b''
      else if d = 12 then CHR ''c'' else if d = 13 then CHR ''d'' else if d = 14 then CHR ''e''
      else CHR ''f'')"

text \<open>The \<open>k\<close> low hexadecimal digits of \<open>n\<close>, most significant first.\<close>

definition hex_digits :: "nat \<Rightarrow> nat \<Rightarrow> string" where
  "hex_digits k n = map (\<lambda>i. hexdigit (n div 16 ^ i mod 16)) (rev [0..<k])"

text \<open>The \<open>k\<close> low bytes of \<open>n\<close>, most significant first.\<close>

definition byte_digits :: "nat \<Rightarrow> nat \<Rightarrow> string" where
  "byte_digits k n = map (\<lambda>i. char_of (n div 256 ^ i mod 256)) (rev [0..<k])"

definition to_hex :: "256 word \<Rightarrow> string" where
  "to_hex w = hex_digits 64 (unat w)"

definition to_bytes :: "256 word \<Rightarrow> string" where
  "to_bytes w = byte_digits 32 (unat w)"

definition sha256 :: "host \<Rightarrow> string \<Rightarrow> string" where
  "sha256 h data = to_hex (digest h data)"

definition doubleSha256 :: "host \<Rightarrow> string \<Rightarrow> string" where
  "doubleSha256 h data = (let first = digest h data in to_hex (digest h (to_bytes first)))"

definition tx_leaf :: "host \<Rightarrow> json \<Rightarrow> string" where
  "tx_leaf h tx = sha256 h (case tx of JStr s \<Rightarrow> s | _ \<Rightarrow> stringify h tx)"

text \<open>One pass of the inner \<open>for\<close> loop; \<open>hashes[i + 1] || left\<close> takes \<open>left\<close> when the
  right neighbour is missing or is the empty string.\<close>

fun nextLevel :: "host \<Rightarrow> string list \<Rightarrow> string list" where
  "nextLevel h [] = []"
| "nextLevel h [left] = [sha256 h (left @ left)]"
| "nextLevel h (left # r # rest) =
     sha256 h (left @ (if r = [] then left else r)) # nextLevel h rest"

function merkle_loop :: "host \<Rightarrow> string list \<Rightarrow> string list" where
  "merkle_loop h hashes =
     (if 1 < length hashes then merkle_loop h (nextLevel h hashes) else hashes)"
  by pat_completeness auto
termination
proof (relation "measure (\<lambda>(h, hashes). length hashes)")
  show "wf (measure (\<lambda>(h, hashes). length hashes))" by simp
next
  fix h :: host and hashes :: "string list"
  assume long: "1 < length hashes"
  have "length (nextLevel h xs) = (length xs + 1) div 2" for xs
    by (induction h xs rule: nextLevel.induct) simp_all
  with long show "((h, nextLevel h hashes), (h, hashes)) \<in> measure (\<lambda>(h, hashes). length hashes)"
    by simp
qed

declare merkle_loop.simps [simp del]

text \<open>The loop ends with exactly one hash whenever it starts with at least one, so
  \<open>hashes[0]\<close> is read in range.\<close>

definition calculateMerkleRoot :: "host \<Rightarrow> json list \<Rightarrow> string" where
  "calculateMerkleRoot h txs =
     (if txs = [] then sha256 h ''empty''
      else merkle_loop h (map (tx_leaf h) txs) ! 0)"

record block =
  index :: nat
  timestamp :: int
  previousHash :: string
  merkleRoot :: string
  nonce :: "json option"
  blk_difficulty :: int
  miner :: "json option"
  transactions :: "json list"
  reward :: "rat option"
  hash :: string

text \<open>The \<open>header\<close> object of \<open>calculateBlockHash\<close>.  \<open>JSON.stringify\<close> leaves out a
  property whose value is \<open>undefined\<close>.\<close>

definition header :: "block \<Rightarrow> json" where
  "header b = JObj (
     [(''index'', JNum (of_nat (index b))),
      (''timestamp'', JNum (of_int (timestamp b))),
      (''previousHash'', JStr (previousHash b)),
      (''merkleRoot'', JStr (merkleRoot b))]
     @ (case nonce b of None \<Rightarrow> [] | Some n \<Rightarrow> [(''nonce'', n)])
     @ [(''difficulty'', JNum (of_int (blk_difficulty b)))])"

definition calculateBlockHash :: "host \<Rightarrow> block \<Rightarrow> string" where
  "calculateBlockHash h b = doubleSha256 h (stringify h (header b))"

definition MAX_256BIT :: nat where
  "MAX_256BIT = 2 ^ 256 - 1"

definition calculateTarget :: "int \<Rightarrow> nat" where
  "calculateTarget d = MAX_256BIT div nat (max 1 d)"

fun digit_of :: "char \<Rightarrow> nat option" where
  "digit_of c =
     (let n = (of_char c :: nat) in
      if 48 \<le> n \<and> n \<le> 57 then Some (n - 48)
      else if 97 \<le> n \<and> n \<le> 102 then Some (n - 87)
      else if 65 \<le> n \<and> n \<le> 70 then Some (n - 55)
      else None)"

fun hex_acc :: "nat \<Rightarrow> string \<Rightarrow> nat option" where
  "hex_acc a [] = Some a"
| "hex_acc a (c # cs) =
     (case digit_of c of None \<Rightarrow> None | Some d \<Rightarrow> hex_acc (16 * a + d) cs)"

definition is_hex_char :: "char \<Rightarrow> bool" where
  "is_hex_char c = (digit_of c \<noteq> None)"

text \<open>The white space and line terminators of the language, as UTF-8 bytes: TAB, LF, VT,
  FF, CR, SP, then U+00A0, U+1680, U+2000 to U+200A, U+2028, U+2029, U+202F, U+205F,
  U+3000 and U+FEFF.\<close>

definition space1 :: "nat \<Rightarrow> bool" where
  "space1 a = (a = 9 \<or> a = 10 \<or> a = 11 \<or> a = 12 \<or> a = 13 \<or> a = 32)"

definition space2 :: "nat \<Rightarrow> nat \<Rightarrow> bool" where
  "space2 a b = (a = 194 \<and> b = 160)"

definition space3 :: "nat \<Rightarrow> nat \<Rightarrow> nat \<Rightarrow> bool" where
  "space3 a b c =
     ((a = 225 \<and> b = 154 \<and> c = 128)
      \<or> (a = 226 \<and> b = 128 \<and> (128 \<le> c \<and> c \<le> 138 \<or> c = 168 \<or> c = 169 \<or> c = 175))
      \<or> (a = 226 \<and> b = 129 \<and> c = 159)
      \<or> (a = 227 \<and> b = 128 \<and> c = 128)
      \<or> (a = 239 \<and> b = 187 \<and> c = 191))"

fun all_space :: "nat list \<Rightarrow> bool" where
  "all_space [] = True"
| "all_space [a] = space1 a"
| "all_space [a, b] = (if space1 a then all_space [b] else space2 a b)"
| "all_space (a # b # c # rest) =
     (if space1 a then all_space (b # c # rest)
      else if space2 a b then all_space (c # rest)
      else space3 a b c \<and> all_space rest)"

text \<open>\<open>BigInt('0x' + s)\<close>: one or more hexadecimal digits, then white space only; \<open>None\<close>
  is the SyntaxError.\<close>

definition BigInt_hex :: "string \<Rightarrow> nat option" where
  "BigInt_hex s =
     (let digits = takeWhile is_hex_char s;
          rest = dropWhile is_hex_char s
      in if digits = [] \<or> \<not> all_space (map of_char rest) then None
         else hex_acc 0 digits)"

definition hashMeetsTarget :: "string \<Rightarrow> int \<Rightarrow> bool option" where
  "hashMeetsTarget hsh d =
     (case BigInt_hex hsh of
        None \<Rightarrow> None
      | Some hashValue \<Rightarrow> Some (hashValue < calculateTarget d))"

section \<open>Addresses and signatures (shared/wallet.js)\<close>

text \<open>\<open>isValidAddress\<close>: a string that starts with the prefix, has 32 more characters,
  all of them matching \<open>/^[0-9A-F]+$/i\<close>.\<close>

fun isValidAddress :: "json option \<Rightarrow> bool" where
  "isValidAddress (Some (JStr a)) =
     (a \<noteq> [] \<and> take (length ADDRESS_PREFIX) a = ADDRESS_PREFIX
      \<and> length a = length ADDRESS_PREFIX + 32
      \<and> (let hexPart = drop (length ADDRESS_PREFIX) a
         in hexPart \<noteq> [] \<and> list_all is_hex_char hexPart))"
| "isValidAddress v = False"

text \<open>\<open>verify\<close> compares \<open>signature.messageHash\<close> with the hex digest of the message;
  the public key is decoded and not used.\<close>

definition verify :: "host \<Rightarrow> string \<Rightarrow> json \<Rightarrow> bool" where
  "verify h message signature =
     (get_prop ''messageHash'' signature = Some (JStr (to_hex (digest h message))))"

section \<open>Coordinator state (server/index.js)\<close>

type_synonym ws = nat

record challenge =
  blockTemplate :: block
  startedAt :: int
  ch_difficulty :: int

text \<open>
  \<open>connectedWallets\<close> is the Map in insertion order (address, socket, joinedAt);
  \<open>processedTxIds\<close> is the Set in insertion order;
  \<open>sockets\<close> holds, per connection, the \<open>walletAddress\<close> variable of the connection
  handler (no entry while it is \<open>null\<close>).
\<close>

record server =
  connectedWallets :: "(string \<times> ws \<times> int) list"
  pendingTransactions :: "json list"
  processedTxIds :: "json option list"
  chain :: "block list"
  currentChallenge :: "challenge option"
  miningInProgress :: bool
  genesisTime :: int
  totalSupply :: rat
  difficulty :: int
  sockets :: "(ws \<times> string) list"

datatype js_error = TypeError | RangeError | SyntaxError

datatype outmsg =
    ErrorMsg string
  | PoolJoined string nat bool
  | PoolUpdated nat "bool option"
  | ChallengeNew block int int
  | SolutionRejected string
  | BlockMined block "json option"
  | TransactionNew json

datatype response = Failure nat string | Success string

text \<open>What a handler does to the outside: a message to one socket, a broadcast to every
  registered wallet whose socket is open, a timer that will call \<open>startMiningRound\<close>, an
  HTTP response.\<close>

datatype effect =
    Send ws outmsg
  | Broadcast outmsg
  | SetTimeout nat
  | Respond response

type_synonym outcome = "js_error option \<times> server \<times> effect list"

definition initial :: "int \<Rightarrow> server" where
  "initial now = \<lparr> connectedWallets = [], pendingTransactions = [], processedTxIds = [],
     chain = [], currentChallenge = None, miningInProgress = False, genesisTime = now,
     totalSupply = 0, difficulty = 1, sockets = [] \<rparr>"

definition createGenesisBlock :: "host \<Rightarrow> server \<Rightarrow> server" where
  "createGenesisBlock h s =
     (let genesis = \<lparr> index = 0, timestamp = genesisTime s,
                       previousHash = replicate 64 (CHR ''0''),
                       merkleRoot = sha256 h ''genesis'', nonce = Some (JNum 0),
                       blk_difficulty = 1, miner = Some (JStr ''BLIX_GENESIS''),
                       transactions = [], reward = None, hash = [] \<rparr>;
          genesis = genesis \<lparr> hash := calculateBlockHash h genesis \<rparr>
      in s \<lparr> chain := chain s @ [genesis] \<rparr>)"

text \<open>The constructor, with \<open>Date.now()\<close> as argument.\<close>

definition BlixnodeServer :: "host \<Rightarrow> int \<Rightarrow> server" where
  "BlixnodeServer h now = createGenesisBlock h (initial now)"

definition canStartMining :: "server \<Rightarrow> bool" where
  "canStartMining s = (MIN_POOL_SIZE \<le> length (connectedWallets s))"

text \<open>
  \<open>adjustDifficulty\<close>, with \<open>Date.now()\<close> as argument.  The timestamps are whole numbers
  of milliseconds, so their differences are exact; the quotients and products are rounded.
  The literals \<open>1.0001\<close> and \<open>1.00005\<close> denote the doubles nearest to them.  With
  \<open>actualTime = 0\<close> the quotient \<open>expectedTime / actualTime\<close> is \<open>+Infinity\<close>, which
  \<open>Math.min(2, _)\<close> brings to 2.  The product is evaluated from left to right.
\<close>

definition adjustDifficulty :: "host \<Rightarrow> int \<Rightarrow> server \<Rightarrow> server" where
  "adjustDifficulty h now s =
     (if length (chain s) < DIFFICULTY_ADJUSTMENT_BLOCKS + 1 then s
      else
        let recentBlocks = drop (length (chain s) - DIFFICULTY_ADJUSTMENT_BLOCKS) (chain s);
            firstBlock = recentBlocks ! 0;
            lastBlock = recentBlocks ! (length recentBlocks - 1);
            actualTime = timestamp lastBlock - timestamp firstBlock;
            expectedTime = TARGET_BLOCK_TIME_MS * int DIFFICULTY_ADJUSTMENT_BLOCKS;
            supplyFactor = Math_pow h (double (10001 / 10000)) (ddiv (totalSupply s) 1000000);
            timeFactor = Math_pow h (double (100005 / 100000))
                           (ddiv (of_int (now - genesisTime s)) 86400000);
            adjustment = (if actualTime = 0 then 2
                          else max (1 / 2)
                                 (min 2 (ddiv (of_int expectedTime) (of_int actualTime))))
        in s \<lparr> difficulty :=
                 max 1 \<lfloor>dmul (dmul (dmul (of_int (difficulty s)) adjustment) supplyFactor)
                              timeFactor\<rfloor> \<rparr>)"

definition calculateBlockReward :: "server \<Rightarrow> rat" where
  "calculateBlockReward s =
     (let halvings = length (chain s) div HALVING_INTERVAL
      in INITIAL_BLOCK_REWARD / 2 ^ halvings)"

text \<open>\<open>Set.add\<close>.\<close>

definition set_add :: "'a \<Rightarrow> 'a list \<Rightarrow> 'a list" where
  "set_add x xs = (if x \<in> set xs then xs else xs @ [x])"

text \<open>\<open>addBlock\<close>; \<open>totalSupply += block.reward || 0\<close> is an addition of doubles.\<close>

definition addBlock :: "block \<Rightarrow> server \<Rightarrow> server" where
  "addBlock b s =
     (let s = s \<lparr> chain := chain s @ [b] \<rparr>;
          s = s \<lparr> totalSupply :=
                     dadd (totalSupply s)
                       (case reward b of None \<Rightarrow> 0 | Some r \<Rightarrow> if r = 0 then 0 else r) \<rparr>;
          minedTxIds = map (get_prop ''id'') (transactions b);
          s = s \<lparr> processedTxIds := fold set_add minedTxIds (processedTxIds s) \<rparr>;
          s = s \<lparr> pendingTransactions :=
                     filter (\<lambda>tx. get_prop ''id'' tx \<notin> set minedTxIds) (pendingTransactions s) \<rparr>
      in if 100000 < length (processedTxIds s)
         then s \<lparr> processedTxIds :=
                    drop (length (processedTxIds s) - 50000) (processedTxIds s) \<rparr>
         else s)"

text \<open>\<open>BigInt(MAX) / BigInt(difficulty)\<close> of the challenge broadcast: BigInt division
  truncates towards zero and raises a RangeError on a zero divisor.\<close>

definition bigint_div :: "int \<Rightarrow> int \<Rightarrow> int option" where
  "bigint_div a b =
     (if b = 0 then None else Some (sgn a * sgn b * (\<bar>a\<bar> div \<bar>b\<bar>)))"

text \<open>
  \<open>startMiningRound\<close>, with \<open>Date.now()\<close> as argument.  On an empty chain \<open>lastBlock\<close> is
  \<open>undefined\<close> and reading \<open>lastBlock.hash\<close> raises a TypeError.  The template has no
  \<open>nonce\<close>, \<open>miner\<close> or \<open>hash\<close> property yet.
\<close>

definition startMiningRound :: "host \<Rightarrow> int \<Rightarrow> server \<Rightarrow> outcome" where
  "startMiningRound h now s =
     (if \<not> canStartMining s \<or> miningInProgress s then (None, s, [])
      else
        let s = s \<lparr> miningInProgress := True \<rparr>;
            s = adjustDifficulty h now s
        in if chain s = [] then (Some TypeError, s, [])
           else
             let lastBlock = last (chain s);
                 blockReward = calculateBlockReward s;
                 txs = take MAX_TRANSACTIONS_PER_BLOCK (pendingTransactions s);
                 template = \<lparr> index = length (chain s), timestamp = now,
                               previousHash = hash lastBlock,
                               merkleRoot = calculateMerkleRoot h txs, nonce = None,
                               blk_difficulty = difficulty s, miner = None,
                               transactions = txs, reward = Some blockReward, hash = [] \<rparr>;
                 s = s \<lparr> currentChallenge :=
                            Some \<lparr> blockTemplate = template, startedAt = now,
                                   ch_difficulty = difficulty s \<rparr> \<rparr>
             in case bigint_div (int MAX_256BIT) (difficulty s) of
                  None \<Rightarrow> (Some RangeError, s, [])
                | Some target \<Rightarrow>
                    (None, s, [Broadcast (ChallengeNew template (difficulty s) target)]))"

definition handlePoolJoin :: "host \<Rightarrow> int \<Rightarrow> ws \<Rightarrow> json \<Rightarrow> server \<Rightarrow> outcome" where
  "handlePoolJoin h now sock message s =
     (let walletAddress = get_prop ''walletAddress'' message in
      if \<not> isValidAddress walletAddress
      then (None, s, [Send sock (ErrorMsg ''Invalid wallet address'')])
      else case walletAddress of
        Some (JStr a) \<Rightarrow>
          if a \<in> fst ` set (connectedWallets s)
          then (None, s, [Send sock (ErrorMsg ''Wallet already connected'')])
          else
            let s = s \<lparr> connectedWallets := connectedWallets s @ [(a, sock, now)] \<rparr>;
                s = s \<lparr> sockets := assign sock a (sockets s) \<rparr>;
                out = [Send sock (PoolJoined a (length (connectedWallets s)) (canStartMining s)),
                       Broadcast (PoolUpdated (length (connectedWallets s))
                                    (Some (canStartMining s)))]
            in if canStartMining s \<and> \<not> miningInProgress s
               then (case startMiningRound h now s of (e, s', out') \<Rightarrow> (e, s', out @ out'))
               else (None, s, out)
      | _ \<Rightarrow> (None, s, [Send sock (ErrorMsg ''Invalid wallet address'')]))"

text \<open>\<open>walletAddress.slice(0, 12)\<close> of the log line: strings and arrays have \<open>slice\<close>; on
  anything else the call raises a TypeError.\<close>

fun has_slice :: "json option \<Rightarrow> bool" where
  "has_slice (Some (JStr a)) = True"
| "has_slice (Some (JArr xs)) = True"
| "has_slice v = False"

text \<open>The object \<open>{...blockTemplate, nonce, miner: walletAddress}\<close> that a submission is
  checked against.\<close>

definition candidate :: "challenge \<Rightarrow> json \<Rightarrow> block" where
  "candidate c message =
     (blockTemplate c) \<lparr> nonce := get_prop ''nonce'' message,
                          miner := get_prop ''walletAddress'' message \<rparr>"

definition handleSolutionSubmit :: "host \<Rightarrow> ws \<Rightarrow> json \<Rightarrow> server \<Rightarrow> outcome" where
  "handleSolutionSubmit h sock message s =
     (let walletAddress = get_prop ''walletAddress'' message;
          hash' = get_prop ''hash'' message
      in case currentChallenge s of
        None \<Rightarrow> (None, s, [Send sock (ErrorMsg ''No active challenge'')])
      | Some c \<Rightarrow>
          (let b = candidate c message;
               calculatedHash = calculateBlockHash h b
           in if Some (JStr calculatedHash) \<noteq> hash'
             then (None, s, [Send sock (SolutionRejected ''Hash mismatch'')])
             else (case hashMeetsTarget calculatedHash (difficulty s) of
               None \<Rightarrow> (Some SyntaxError, s, [])
             | Some False \<Rightarrow>
                 (None, s, [Send sock (SolutionRejected ''Does not meet difficulty target'')])
             | Some True \<Rightarrow>
                 (let b = b \<lparr> hash := calculatedHash \<rparr>;
                      s = addBlock b s
                  in if \<not> has_slice walletAddress then (Some TypeError, s, [])
                     else
                       (let out = [Broadcast (BlockMined b walletAddress)];
                            s = s \<lparr> miningInProgress := False \<rparr>;
                            s = s \<lparr> currentChallenge := None \<rparr>
                        in (None, s,
                            out @ (if canStartMining s then [SetTimeout 1000] else [])))))))"

definition handleMessage :: "host \<Rightarrow> int \<Rightarrow> ws \<Rightarrow> json \<Rightarrow> server \<Rightarrow> outcome" where
  "handleMessage h now sock message s =
     (if get_prop ''type'' message = Some (JStr ''pool:join'')
      then handlePoolJoin h now sock message s
      else if get_prop ''type'' message = Some (JStr ''solution:submit'')
      then handleSolutionSubmit h sock message s
      else (None, s, [Send sock (ErrorMsg ''Unknown message type'')]))"

text \<open>The \<open>message\<close> listener, from the parsed message on: the structure check, then
  \<open>handleMessage\<close> inside \<open>try\<close>; the \<open>catch\<close> answers any exception and goes on with
  the state as the handler left it.\<close>

fun is_object :: "json \<Rightarrow> bool" where
  "is_object (JObj kvs) = True"
| "is_object (JArr xs) = True"
| "is_object j = False"

definition onMessage :: "host \<Rightarrow> int \<Rightarrow> ws \<Rightarrow> json \<Rightarrow> server \<Rightarrow> server \<times> effect list" where
  "onMessage h now sock message s =
     (if \<not> is_object message \<or> \<not> truthy (get_prop ''type'' message)
      then (s, [Send sock (ErrorMsg ''Invalid message structure'')])
      else case handleMessage h now sock message s of
        (None, s', out) \<Rightarrow> (s', out)
      | (Some err, s', out) \<Rightarrow> (s', out @ [Send sock (ErrorMsg ''Invalid message format'')]))"

definition onClose :: "ws \<Rightarrow> server \<Rightarrow> server \<times> effect list" where
  "onClose sock s =
     (case map_of (sockets s) sock of
        None \<Rightarrow> (s, [])
      | Some walletAddress \<Rightarrow>
          let s = s \<lparr> connectedWallets :=
                       filter (\<lambda>(a, entry). a \<noteq> walletAddress) (connectedWallets s) \<rparr>
          in (s, [Broadcast (PoolUpdated (length (connectedWallets s)) None)]))"

section \<open>Transaction admission (POST /transaction/submit)\<close>

text \<open>\<open>typeof v !== 'number' || bad v\<close>.\<close>

fun not_number_or :: "(rat \<Rightarrow> bool) \<Rightarrow> json option \<Rightarrow> bool" where
  "not_number_or bad (Some (JNum r)) = bad r"
| "not_number_or bad v = True"

fun is_string :: "json option \<Rightarrow> bool" where
  "is_string (Some (JStr a)) = True"
| "is_string v = False"

text \<open>The object literal \<open>{sender, recipient, amount, fee, nonce, timestamp}\<close> built from
  a transaction, as \<open>JSON.stringify\<close> sees it.\<close>

definition canonical :: "json \<Rightarrow> json" where
  "canonical tx = JObj (concat (map
      (\<lambda>k. case get_prop k tx of None \<Rightarrow> [] | Some v \<Rightarrow> [(k, v)])
      [''sender'', ''recipient'', ''amount'', ''fee'', ''nonce'', ''timestamp'']))"

text \<open>\<open>validateTransaction\<close>: \<open>None\<close> is \<open>{valid: true}\<close>, \<open>Some reason\<close> is
  \<open>{valid: false, reason}\<close>.\<close>

definition validateTransaction :: "host \<Rightarrow> json \<Rightarrow> string option" where
  "validateTransaction h tx =
     (if \<not> is_object tx then Some ''Transaction must be an object''
      else if \<not> truthy (get_prop ''sender'' tx) \<or> \<not> truthy (get_prop ''recipient'' tx)
              \<or> get_prop ''amount'' tx = None
      then Some ''Missing required fields: sender, recipient, amount''
      else if \<not> isValidAddress (get_prop ''sender'' tx)
      then Some ''Invalid sender address format''
      else if \<not> isValidAddress (get_prop ''recipient'' tx)
      then Some ''Invalid recipient address format''
      else if not_number_or (\<lambda>amount. amount \<le> 0) (get_prop ''amount'' tx)
      then Some ''Amount must be a positive number''
      else if not_number_or (\<lambda>fee. fee < MIN_TRANSACTION_FEE) (get_prop ''fee'' tx)
      then Some ''Fee must be at least 0.0001''
      else if not_number_or (\<lambda>n. n \<noteq> of_int \<lfloor>n\<rfloor> \<or> n < 0) (get_prop ''nonce'' tx)
      then Some ''Nonce must be a non-negative integer''
      else if not_number_or (\<lambda>t. t \<le> 0) (get_prop ''timestamp'' tx)
      then Some ''Timestamp must be a positive number''
      else case get_prop ''signature'' tx of
        None \<Rightarrow> Some ''Transaction signature is required''
      | Some signature \<Rightarrow>
          if \<not> truthy (Some signature) \<or> \<not> is_object signature
          then Some ''Transaction signature is required''
          else if \<not> truthy (get_prop ''senderPublicKey'' tx)
                  \<or> \<not> is_string (get_prop ''senderPublicKey'' tx)
          then Some ''Sender public key is required''
          else if \<not> verify h (stringify h (canonical tx)) signature
          then Some ''Invalid transaction signature''
          else None)"

definition submitTransaction :: "host \<Rightarrow> json \<Rightarrow> server \<Rightarrow> server \<times> effect list" where
  "submitTransaction h tx s =
     (if \<not> is_object tx then (s, [Respond (Failure 400 ''Invalid request body'')])
      else case validateTransaction h tx of
        Some reason \<Rightarrow>
          (s, [Respond (Failure 400 (if reason = [] then ''Invalid transaction'' else reason))])
      | None \<Rightarrow>
          let txid = sha256 h (stringify h (canonical tx));
              tx = set_prop ''id'' (JStr txid) tx
          in if Some (JStr txid) \<in> set (processedTxIds s)
             then (s, [Respond (Failure 400
                         ''Transaction already processed (possible replay attack)'')])
             else if MAX_PENDING_TRANSACTIONS \<le> length (pendingTransactions s)
             then (s, [Respond (Failure 503
                         ''Transaction pool is full, please try again later'')])
             else (s \<lparr> pendingTransactions := pendingTransactions s @ [tx] \<rparr>,
                   [Broadcast (TransactionNew tx), Respond (Success txid)]))"

section \<open>Events\<close>

text \<open>
  What reaches the coordinator after construction: a parsed WebSocket message, a message
  over the size limit, a message that \<open>JSON.parse\<close> refuses, a closed connection, a
  transaction posted over HTTP, and the timer set after a commit.  Each event comes with
  the value of \<open>Date.now()\<close> at that moment.  The read-only routes do not change the state
  and are left out.
\<close>

datatype event =
    WsMessage ws json
  | WsOversized ws
  | WsUnparseable ws
  | WsClose ws
  | PostTransaction json
  | TimerFired

fun step :: "host \<Rightarrow> int \<times> event \<Rightarrow> server \<Rightarrow> server \<times> effect list" where
  "step h (now, WsMessage sock message) s = onMessage h now sock message s"
| "step h (now, WsOversized sock) s =
     (s, [Send sock (ErrorMsg ''Message too large. Maximum size: 102400 bytes'')])"
| "step h (now, WsUnparseable sock) s = (s, [Send sock (ErrorMsg ''Invalid message format'')])"
| "step h (now, WsClose sock) s = onClose sock s"
| "step h (now, PostTransaction tx) s = submitTransaction h tx s"
| "step h (now, TimerFired) s = (case startMiningRound h now s of (e, s', out) \<Rightarrow> (s', out))"

definition run :: "host \<Rightarrow> (int \<times> event) list \<Rightarrow> server \<Rightarrow> server" where
  "run h evs s = foldl (\<lambda>s e. fst (step h e s)) s evs"

section \<open>A small host for evaluation\<close>

text \<open>
  A host on which the definitions can be run: the digest is a 16-bit polynomial checksum of
  the bytes, the serialiser prints flat objects of strings and whole numbers the way
  \<open>JSON.stringify\<close> does, and the power is 1 for the exponent 0, the base for the
  exponent 1, as \<open>Math.pow\<close> gives them, and 1 elsewhere.
\<close>

function decimal :: "nat \<Rightarrow> string" where
  "decimal n = (if n < 10 then [hexdigit n] else decimal (n div 10) @ [hexdigit (n mod 10)])"
  by pat_completeness auto
termination
  by (relation "measure id") auto

declare decimal.simps [simp del]

fun demo_value :: "json \<Rightarrow> string" where
  "demo_value JNull = ''null''"
| "demo_value (JBool b) = (if b then ''true'' else ''false'')"
| "demo_value (JNum r) = (if r < 0 then ''-'' else []) @ decimal (nat \<lfloor>\<bar>r\<bar>\<rfloor>)"
| "demo_value (JStr a) = [CHR 0x22] @ a @ [CHR 0x22]"
| "demo_value (JArr xs) = ''[]''"
| "demo_value (JObj kvs) = ''{}''"

fun demo_members :: "(string \<times> json) list \<Rightarrow> string" where
  "demo_members [] = []"
| "demo_members [(k, v)] = [CHR 0x22] @ k @ [CHR 0x22] @ '':'' @ demo_value v"
| "demo_members ((k, v) # kvs) =
     [CHR 0x22] @ k @ [CHR 0x22] @ '':'' @ demo_value v @ '','' @ demo_members kvs"

fun demo_stringify :: "json \<Rightarrow> string" where
  "demo_stringify (JObj kvs) = ''{'' @ demo_members kvs @ ''}''"
| "demo_stringify j = demo_value j"

definition demo_digest :: "string \<Rightarrow> 256 word" where
  "demo_digest bytes =
     word_of_nat (foldl (\<lambda>acc c. (31 * acc + of_char c) mod 65521) 7 bytes)"

definition demo_pow :: "rat \<Rightarrow> rat \<Rightarrow> rat" where
  "demo_pow x y = (if y = 1 then x else 1)"

definition demo :: host where
  "demo = \<lparr> digest = demo_digest, stringify = demo_stringify, Math_pow = demo_pow \<rparr>"

section \<open>Notions of the specification\<close>

text \<open>The 256-bit value whose hex string is the block hash.\<close>

definition block_digest :: "host \<Rightarrow> block \<Rightarrow> 256 word" where
  "block_digest h b = digest h (to_bytes (digest h (stringify h (header b))))"

text \<open>A block's contribution to the supply: its reward, or 0 when it has none.\<close>

definition reward_or_0 :: "block \<Rightarrow> rat" where
  "reward_or_0 b = (case reward b of None \<Rightarrow> 0 | Some r \<Rightarrow> r)"

text \<open>
  The three grounds for rejecting a submission, in the specification's words: no round is
  active, or the header hash recomputed from the template, the submitted nonce and the
  claimed miner is not the submitted hash, or the hash read as an unsigned integer is not
  below \<open>MAX_256BIT / difficulty\<close>.
\<close>

definition spec_rejects :: "host \<Rightarrow> json \<Rightarrow> server \<Rightarrow> bool" where
  "spec_rejects h message s =
     (case currentChallenge s of
        None \<Rightarrow> True
      | Some c \<Rightarrow>
          (let recomputed = calculateBlockHash h (candidate c message)
           in get_prop ''hash'' message \<noteq> Some (JStr recomputed)
              \<or> (case BigInt_hex recomputed of
                   None \<Rightarrow> True
                 | Some hashValue \<Rightarrow>
                     \<not> hashValue < MAX_256BIT div nat (difficulty s))))"

text \<open>What a rejected submitter receives: one message, to that socket only.\<close>

definition rejection :: "ws \<Rightarrow> effect list \<Rightarrow> bool" where
  "rejection sock out =
     (out = [Send sock (ErrorMsg ''No active challenge'')]
      \<or> out = [Send sock (SolutionRejected ''Hash mismatch'')]
      \<or> out = [Send sock (SolutionRejected ''Does not meet difficulty target'')])"

text \<open>The quantities of the difficulty formula: the time spanned by the last
  \<open>DIFFICULTY_ADJUSTMENT_BLOCKS\<close> blocks, the clamp, the ratio of expected to actual time
  (a quotient of doubles; the clamped infinity for a zero span), and the two growth
  factors.\<close>

definition actualTime :: "server \<Rightarrow> int" where
  "actualTime s =
     timestamp (last (chain s))
     - timestamp (chain s ! (length (chain s) - DIFFICULTY_ADJUSTMENT_BLOCKS))"

definition clamp_ratio :: "rat \<Rightarrow> rat" where
  "clamp_ratio r = (if r < 1 / 2 then 1 / 2 else if 2 < r then 2 else r)"

definition ratio :: "server \<Rightarrow> rat" where
  "ratio s =
     (if actualTime s = 0 then 2
      else clamp_ratio (ddiv (of_int (TARGET_BLOCK_TIME_MS * int DIFFICULTY_ADJUSTMENT_BLOCKS))
                             (of_int (actualTime s))))"

definition supplyFactor :: "host \<Rightarrow> server \<Rightarrow> rat" where
  "supplyFactor h s = Math_pow h (double (1 + 1 / 10000)) (ddiv (totalSupply s) 1000000)"

definition timeFactor :: "host \<Rightarrow> int \<Rightarrow> server \<Rightarrow> rat" where
  "timeFactor h now s =
     Math_pow h (double (1 + 5 / 100000)) (ddiv (of_int (now - genesisTime s)) 86400000)"

text \<open>The difficulty formula in exact arithmetic, with the quotient and the products not
  rounded.\<close>

definition exact_formula :: "host \<Rightarrow> int \<Rightarrow> server \<Rightarrow> int" where
  "exact_formula h now s =
     max 1 \<lfloor>of_int (difficulty s)
            * clamp_ratio (of_int (TARGET_BLOCK_TIME_MS * int DIFFICULTY_ADJUSTMENT_BLOCKS)
                             / of_int (actualTime s))
            * supplyFactor h s * timeFactor h now s\<rfloor>"

text \<open>The sum of the rewards of a list of blocks as the coordinator accumulates it: from
  left to right, each addition rounded.\<close>

definition accumulated :: "block list \<Rightarrow> rat" where
  "accumulated bs = foldl (\<lambda>acc b. dadd acc (reward_or_0 b)) 0 bs"

text \<open>The supply invariant: the chain is not empty, and the supply is what the blocks
  after the first have accumulated.\<close>

definition supply_ok :: "server \<Rightarrow> bool" where
  "supply_ok s = (chain s \<noteq> [] \<and> totalSupply s = accumulated (tl (chain s)))"

text \<open>The state after the transition from Idle to Active at time \<open>now\<close>: the
  difficulty adjusted, and a round whose template has the chain length as index, the hash
  of the tip as previous hash, the first pending transactions and their Merkle root, and
  the reward of that height.\<close>

definition opened :: "host \<Rightarrow> int \<Rightarrow> server \<Rightarrow> server" where
  "opened h now s =
     (let s1 = adjustDifficulty h now (s \<lparr> miningInProgress := True \<rparr>);
          txs = take MAX_TRANSACTIONS_PER_BLOCK (pendingTransactions s);
          template = \<lparr> index = length (chain s), timestamp = now,
                        previousHash = hash (last (chain s)),
                        merkleRoot = calculateMerkleRoot h txs, nonce = None,
                        blk_difficulty = difficulty s1, miner = None,
                        transactions = txs, reward = Some (calculateBlockReward s),
                        hash = [] \<rparr>
      in s1 \<lparr> currentChallenge :=
                Some \<lparr> blockTemplate = template, startedAt = now,
                       ch_difficulty = difficulty s1 \<rparr> \<rparr>)"

text \<open>The state after a wallet has been registered.\<close>

definition joined :: "string \<Rightarrow> ws \<Rightarrow> int \<Rightarrow> server \<Rightarrow> server" where
  "joined a sock now s =
     s \<lparr> connectedWallets := connectedWallets s @ [(a, sock, now)],
         sockets := assign sock a (sockets s) \<rparr>"

section \<open>Scenarios\<close>

definition joinMessage :: "string \<Rightarrow> json" where
  "joinMessage a = JObj [(''type'', JStr ''pool:join''), (''walletAddress'', JStr a)]"

text \<open>A solution for the open round that names no miner: the nonce and the hash of the
  template with that nonce.\<close>

definition anonymousSolution :: "host \<Rightarrow> challenge \<Rightarrow> json \<Rightarrow> json" where
  "anonymousSolution h c n =
     JObj [(''type'', JStr ''solution:submit''), (''nonce'', n),
           (''hash'', JStr (calculateBlockHash h ((blockTemplate c) \<lparr> nonce := Some n \<rparr>)))]"

definition walletA :: string where
  "walletA = ''BLX0123456789ABCDEF0123456789ABCDEF''"

definition walletB :: string where
  "walletB = ''BLXfedcba9876543210fedcba9876543210''"

text \<open>The block such a solution commits.\<close>

definition mined :: "host \<Rightarrow> challenge \<Rightarrow> json \<Rightarrow> block" where
  "mined h c n =
     (blockTemplate c) \<lparr> nonce := Some n, miner := None,
        hash := calculateBlockHash h ((blockTemplate c) \<lparr> nonce := Some n \<rparr>) \<rparr>"

text \<open>Two wallets join a new coordinator; then the same anonymous solution for the round
  that has opened arrives twice.\<close>

definition two_joins :: "(int \<times> event) list" where
  "two_joins =
     [(1, WsMessage 11 (joinMessage walletA)), (2, WsMessage 12 (joinMessage walletB))]"

definition pool_of_two :: "host \<Rightarrow> server" where
  "pool_of_two h = run h two_joins (BlixnodeServer h 0)"

definition open_round :: "host \<Rightarrow> challenge" where
  "open_round h = the (currentChallenge (pool_of_two h))"

definition solved_twice :: "host \<Rightarrow> json \<Rightarrow> (int \<times> event) list" where
  "solved_twice h n =
     two_joins @ [(3, WsMessage 13 (anonymousSolution h (open_round h) n)),
                  (4, WsMessage 13 (anonymousSolution h (open_round h) n))]"

text \<open>A signed transfer for the small host.\<close>

definition transfer_payload :: json where
  "transfer_payload = JObj
     [(''sender'', JStr walletA), (''recipient'', JStr walletB), (''amount'', JNum 5),
      (''fee'', JNum (1 / 100)), (''nonce'', JNum 0), (''timestamp'', JNum 1700000000000)]"

definition transfer :: json where
  "transfer = JObj
     [(''sender'', JStr walletA), (''recipient'', JStr walletB), (''amount'', JNum 5),
      (''fee'', JNum (1 / 100)), (''nonce'', JNum 0), (''timestamp'', JNum 1700000000000),
      (''signature'', JObj [(''messageHash'', JStr (sha256 demo (stringify demo transfer_payload)))]),
      (''senderPublicKey'', JStr ''02aa'')]"

text \<open>Coordinators whose chain has eleven blocks with given timestamps, no supply and a
  given difficulty: one whose last ten blocks span 2,640,000 ms, at difficulty 11, and one
  whose blocks all carry the same timestamp, at difficulty 3.\<close>

definition block_at :: "nat \<times> int \<Rightarrow> block" where
  "block_at it = \<lparr> index = fst it, timestamp = snd it, previousHash = [], merkleRoot = [],
     nonce = None, blk_difficulty = 1, miner = None, transactions = [],
     reward = None, hash = [] \<rparr>"

definition stamped :: "int list \<Rightarrow> int \<Rightarrow> server" where
  "stamped ts d = (initial 0) \<lparr> chain := map block_at (enumerate 0 ts), difficulty := d \<rparr>"

definition slow_blocks :: server where
  "slow_blocks =
     stamped [0, 0, 300000, 600000, 900000, 1200000, 1500000, 1800000, 2100000, 2400000,
              2640000] 11"

definition same_time_blocks :: server where
  "same_time_blocks = stamped [5, 5, 5, 5, 5, 5, 5, 5, 5, 5, 5] 3"

text \<open>A coordinator with a supply of 50 and a block whose reward is \<open>50 / 2^60\<close>; and a
  coordinator with the supply that 6,299,999 committed blocks bring, and the block of
  height 6,300,000, whose reward is \<open>50 / 2^30\<close>.\<close>

definition paying :: "nat \<Rightarrow> rat \<Rightarrow> block" where
  "paying i r = \<lparr> index = i, timestamp = 0, previousHash = [], merkleRoot = [],
     nonce = None, blk_difficulty = 1, miner = None, transactions = [],
     reward = Some r, hash = [] \<rparr>"

definition supplied :: "rat \<Rightarrow> server" where
  "supplied amount = (initial 0) \<lparr> totalSupply := amount \<rparr>"

section \<open>Hex strings\<close>

lemma digit_of_hexdigit: "d < 16 \<Longrightarrow> digit_of (hexdigit d) = Some d"
  unfolding hexdigit_def by (simp; arith)

lemma hex_digits_0: "hex_digits 0 n = []"
  by (simp add: hex_digits_def)

lemma hex_digits_Suc: "hex_digits (Suc k) n = hexdigit (n div 16 ^ k mod 16) # hex_digits k n"
  by (simp add: hex_digits_def)

lemma hex_digits_numeral:
  "hex_digits (numeral k) n =
     hexdigit (n div 16 ^ pred_numeral k mod 16) # hex_digits (pred_numeral k) n"
  by (simp only: numeral_eq_Suc [of k] hex_digits_Suc)

lemma length_hex_digits: "length (hex_digits k n) = k"
  by (simp add: hex_digits_def)

text \<open>Reading back the digits gives the number: by induction on the number of digits,
  with the accumulator of \<open>hex_acc\<close> generalised.\<close>

lemma hex_acc_digits: "hex_acc a (hex_digits k n) = Some (a * 16 ^ k + n mod 16 ^ k)"
proof (induction k arbitrary: a)
  case 0
  then show ?case by (simp add: hex_digits_0)
next
  case (Suc k)
  have d: "n div 16 ^ k mod 16 < 16" by simp
  have "n mod 16 ^ Suc k = (n div 16 ^ k mod 16) * 16 ^ k + n mod 16 ^ k"
    using mod_mult2_eq [of n "16 ^ k" 16] by (simp add: mult.commute)
  then show ?case
    using Suc.IH [of "16 * a + n div 16 ^ k mod 16"]
    by (simp add: hex_digits_Suc digit_of_hexdigit [OF d] algebra_simps del: digit_of.simps)
qed

lemma length_to_hex: "length (to_hex w) = 64"
  by (simp add: to_hex_def length_hex_digits)

lemma to_hex_not_empty: "to_hex w \<noteq> []"
  using length_to_hex [of w] by auto

lemma is_hex_char_hexdigit: "is_hex_char (hexdigit d)"
  by (simp add: is_hex_char_def hexdigit_def)

lemma hex_digits_all_hex: "takeWhile is_hex_char (hex_digits k n) = hex_digits k n"
  "dropWhile is_hex_char (hex_digits k n) = []"
  by (simp_all add: hex_digits_def is_hex_char_hexdigit)

lemma BigInt_hex_to_hex: "BigInt_hex (to_hex w) = Some (unat w)"
proof -
  have "unat w < 16 ^ 64" using unsigned_less [of w] by simp
  then have "unat w mod 16 ^ 64 = unat w" by simp
  then show ?thesis
    using hex_acc_digits [of 0 64 "unat w"] to_hex_not_empty [of w]
    by (simp add: BigInt_hex_def to_hex_def hex_digits_all_hex)
qed

lemma to_hex_inject: "to_hex v = to_hex w \<longleftrightarrow> v = w"
proof
  assume "to_hex v = to_hex w"
  then have "BigInt_hex (to_hex v) = BigInt_hex (to_hex w)" by simp
  then have "unat v = unat w" by (simp add: BigInt_hex_to_hex)
  then show "v = w" using word_unat_eq_iff by blast
qed simp

lemma hashMeetsTarget_to_hex:
  "hashMeetsTarget (to_hex w) d = Some (unat w < calculateTarget d)"
  by (simp add: hashMeetsTarget_def BigInt_hex_to_hex)

lemma sha256_not_empty: "sha256 h x \<noteq> []"
  by (simp add: sha256_def to_hex_not_empty)

lemma calculateBlockHash_to_hex: "calculateBlockHash h b = to_hex (block_digest h b)"
  by (simp add: calculateBlockHash_def doubleSha256_def block_digest_def)

lemmas demo_eval = sha256_def demo_def demo_digest_def to_hex_def hex_digits_numeral
  hex_digits_Suc hex_digits_0 hexdigit_def

section \<open>Effect of the handlers on the state\<close>

lemma addBlock_fields:
  "chain (addBlock b s) = chain s @ [b]"
  "totalSupply (addBlock b s) = dadd (totalSupply s) (reward_or_0 b)"
  "currentChallenge (addBlock b s) = currentChallenge s"
  "miningInProgress (addBlock b s) = miningInProgress s"
  "difficulty (addBlock b s) = difficulty s"
  "connectedWallets (addBlock b s) = connectedWallets s"
  "genesisTime (addBlock b s) = genesisTime s"
  "sockets (addBlock b s) = sockets s"
  by (simp_all add: addBlock_def Let_def reward_or_0_def split: option.split)

lemma adjustDifficulty_fields:
  "chain (adjustDifficulty h now s) = chain s"
  "totalSupply (adjustDifficulty h now s) = totalSupply s"
  "currentChallenge (adjustDifficulty h now s) = currentChallenge s"
  "miningInProgress (adjustDifficulty h now s) = miningInProgress s"
  "connectedWallets (adjustDifficulty h now s) = connectedWallets s"
  "pendingTransactions (adjustDifficulty h now s) = pendingTransactions s"
  "genesisTime (adjustDifficulty h now s) = genesisTime s"
  by (simp_all add: adjustDifficulty_def Let_def)

lemma adjustDifficulty_positive: "1 \<le> difficulty s \<Longrightarrow> 1 \<le> difficulty (adjustDifficulty h now s)"
  by (simp add: adjustDifficulty_def Let_def)

text \<open>The four ways through \<open>handleSolutionSubmit\<close>.\<close>

lemma submit_no_round:
  "currentChallenge s = None \<Longrightarrow>
   handleSolutionSubmit h sock m s = (None, s, [Send sock (ErrorMsg ''No active challenge'')])"
  by (simp add: handleSolutionSubmit_def)

lemma submit_mismatch:
  "currentChallenge s = Some c \<Longrightarrow>
   get_prop ''hash'' m \<noteq> Some (JStr (calculateBlockHash h (candidate c m))) \<Longrightarrow>
   handleSolutionSubmit h sock m s = (None, s, [Send sock (SolutionRejected ''Hash mismatch'')])"
  by (auto simp add: handleSolutionSubmit_def Let_def)

lemma submit_weak:
  "currentChallenge s = Some c \<Longrightarrow>
   get_prop ''hash'' m = Some (JStr (calculateBlockHash h (candidate c m))) \<Longrightarrow>
   \<not> unat (block_digest h (candidate c m)) < calculateTarget (difficulty s) \<Longrightarrow>
   handleSolutionSubmit h sock m s
     = (None, s, [Send sock (SolutionRejected ''Does not meet difficulty target'')])"
  by (simp add: handleSolutionSubmit_def Let_def calculateBlockHash_to_hex hashMeetsTarget_to_hex)

lemma submit_accepted:
  "currentChallenge s = Some c \<Longrightarrow>
   get_prop ''hash'' m = Some (JStr (calculateBlockHash h (candidate c m))) \<Longrightarrow>
   unat (block_digest h (candidate c m)) < calculateTarget (difficulty s) \<Longrightarrow>
   b = (candidate c m) \<lparr> hash := calculateBlockHash h (candidate c m) \<rparr> \<Longrightarrow>
   handleSolutionSubmit h sock m s
     = (if has_slice (get_prop ''walletAddress'' m)
        then (None, (addBlock b s) \<lparr> miningInProgress := False, currentChallenge := None \<rparr>,
              Broadcast (BlockMined b (get_prop ''walletAddress'' m))
                # (if canStartMining s then [SetTimeout 1000] else []))
        else (Some TypeError, addBlock b s, []))"
  by (simp add: handleSolutionSubmit_def Let_def calculateBlockHash_to_hex hashMeetsTarget_to_hex
      canStartMining_def addBlock_fields)

text \<open>Opening a round.\<close>

lemma startMiningRound_idle:
  "\<not> canStartMining s \<or> miningInProgress s \<Longrightarrow> startMiningRound h now s = (None, s, [])"
  by (simp add: startMiningRound_def)

lemma calculateBlockReward_cong: "chain s' = chain s \<Longrightarrow> calculateBlockReward s' = calculateBlockReward s"
  by (simp add: calculateBlockReward_def)

lemma bigint_div_pos: "0 < d \<Longrightarrow> bigint_div (int MAX_256BIT) d = Some (int MAX_256BIT div d)"
  by (simp add: bigint_div_def MAX_256BIT_def)

lemma startMiningRound_opens:
  assumes "canStartMining s" "\<not> miningInProgress s" "chain s \<noteq> []"
  shows "fst (snd (startMiningRound h now s)) = opened h now s"
  using assms
  by (simp add: startMiningRound_def opened_def Let_def adjustDifficulty_fields
      calculateBlockReward_cong [of "adjustDifficulty h now (s \<lparr> miningInProgress := True \<rparr>)" s]
      split: option.split)

lemma opened_fields:
  "chain (opened h now s) = chain s"
  "totalSupply (opened h now s) = totalSupply s"
  "miningInProgress (opened h now s)"
  "connectedWallets (opened h now s) = connectedWallets s"
  "\<exists>c. currentChallenge (opened h now s) = Some c"
  "difficulty (opened h now s) = difficulty (adjustDifficulty h now s)"
  by (simp_all add: opened_def Let_def adjustDifficulty_fields adjustDifficulty_def)

lemma startMiningRound_fields:
  "chain (fst (snd (startMiningRound h now s))) = chain s"
  "totalSupply (fst (snd (startMiningRound h now s))) = totalSupply s"
  "connectedWallets (fst (snd (startMiningRound h now s))) = connectedWallets s"
  "genesisTime (fst (snd (startMiningRound h now s))) = genesisTime s"
  by (simp_all add: startMiningRound_def Let_def adjustDifficulty_fields split: option.split)

lemma startMiningRound_positive:
  "1 \<le> difficulty s \<Longrightarrow> 1 \<le> difficulty (fst (snd (startMiningRound h now s)))"
  by (simp add: startMiningRound_def Let_def adjustDifficulty_positive split: option.split)

text \<open>Joining the pool.\<close>

lemma isValidAddress_string: "isValidAddress v \<Longrightarrow> \<exists>a. v = Some (JStr a)"
  by (cases v rule: isValidAddress.cases) simp_all

lemma join_invalid:
  "\<not> isValidAddress (get_prop ''walletAddress'' m) \<Longrightarrow>
   handlePoolJoin h now sock m s = (None, s, [Send sock (ErrorMsg ''Invalid wallet address'')])"
  by (simp add: handlePoolJoin_def)

lemma join_duplicate:
  "get_prop ''walletAddress'' m = Some (JStr a) \<Longrightarrow> isValidAddress (Some (JStr a)) \<Longrightarrow>
   a \<in> fst ` set (connectedWallets s) \<Longrightarrow>
   handlePoolJoin h now sock m s = (None, s, [Send sock (ErrorMsg ''Wallet already connected'')])"
  by (simp add: handlePoolJoin_def)

lemma join_new:
  "get_prop ''walletAddress'' m = Some (JStr a) \<Longrightarrow> isValidAddress (Some (JStr a)) \<Longrightarrow>
   a \<notin> fst ` set (connectedWallets s) \<Longrightarrow>
   fst (snd (handlePoolJoin h now sock m s))
     = (if canStartMining (joined a sock now s) \<and> \<not> miningInProgress s
        then fst (snd (startMiningRound h now (joined a sock now s)))
        else joined a sock now s)"
  by (simp add: handlePoolJoin_def joined_def Let_def split: prod.split)

lemma joined_fields:
  "chain (joined a sock now s) = chain s"
  "totalSupply (joined a sock now s) = totalSupply s"
  "miningInProgress (joined a sock now s) = miningInProgress s"
  "currentChallenge (joined a sock now s) = currentChallenge s"
  "difficulty (joined a sock now s) = difficulty s"
  "genesisTime (joined a sock now s) = genesisTime s"
  "connectedWallets (joined a sock now s) = connectedWallets s @ [(a, sock, now)]"
  by (simp_all add: joined_def)

lemma handlePoolJoin_state:
  "\<exists>a. fst (snd (handlePoolJoin h now sock m s)) = s
     \<or> fst (snd (handlePoolJoin h now sock m s)) = joined a sock now s
     \<or> fst (snd (handlePoolJoin h now sock m s))
         = fst (snd (startMiningRound h now (joined a sock now s)))"
proof (cases "isValidAddress (get_prop ''walletAddress'' m)")
  case False
  then show ?thesis by (simp add: join_invalid)
next
  case True
  then obtain a where a: "get_prop ''walletAddress'' m = Some (JStr a)"
    using isValidAddress_string by blast
  show ?thesis
  proof (cases "a \<in> fst ` set (connectedWallets s)")
    case True
    with a \<open>isValidAddress _\<close> show ?thesis by (simp add: join_duplicate)
  next
    case False
    with a \<open>isValidAddress _\<close> have
      "fst (snd (handlePoolJoin h now sock m s)) = joined a sock now s
       \<or> fst (snd (handlePoolJoin h now sock m s))
           = fst (snd (startMiningRound h now (joined a sock now s)))"
      by (simp add: join_new)
    then show ?thesis by blast
  qed
qed

lemma handlePoolJoin_fields:
  "chain (fst (snd (handlePoolJoin h now sock m s))) = chain s"
  "totalSupply (fst (snd (handlePoolJoin h now sock m s))) = totalSupply s"
  using handlePoolJoin_state [of h now sock m s]
  by (auto simp: startMiningRound_fields joined_fields)

lemma handlePoolJoin_positive:
  "1 \<le> difficulty s \<Longrightarrow> 1 \<le> difficulty (fst (snd (handlePoolJoin h now sock m s)))"
  using handlePoolJoin_state [of h now sock m s]
  by (auto simp: joined_fields startMiningRound_positive)

lemma walletA_valid: "isValidAddress (Some (JStr walletA))"
  by (simp add: walletA_def ADDRESS_PREFIX_def is_hex_char_def)

lemma walletB_valid: "isValidAddress (Some (JStr walletB))"
  by (simp add: walletB_def ADDRESS_PREFIX_def is_hex_char_def)

lemma get_joinMessage: "get_prop ''walletAddress'' (joinMessage a) = Some (JStr a)"
  by (simp add: joinMessage_def)

lemma first_join:
  assumes "connectedWallets s = []" "isValidAddress (Some (JStr a))"
  shows "fst (snd (handlePoolJoin h now sock (joinMessage a) s)) = joined a sock now s"
  using assms by (simp add: join_new get_joinMessage canStartMining_def joined_fields MIN_POOL_SIZE_def)

lemma second_join:
  assumes "connectedWallets s = [(a, entry)]" "\<not> miningInProgress s" "chain s \<noteq> []"
    "isValidAddress (Some (JStr b))" "a \<noteq> b"
  shows "fst (snd (handlePoolJoin h now sock (joinMessage b) s))
           = opened h now (joined b sock now s)"
  using assms
  by (simp add: join_new get_joinMessage canStartMining_def joined_fields MIN_POOL_SIZE_def
      startMiningRound_opens)

text \<open>The coordinator as constructed.\<close>

lemma BlixnodeServer_fields:
  "connectedWallets (BlixnodeServer h t0) = []"
  "pendingTransactions (BlixnodeServer h t0) = []"
  "processedTxIds (BlixnodeServer h t0) = []"
  "currentChallenge (BlixnodeServer h t0) = None"
  "\<not> miningInProgress (BlixnodeServer h t0)"
  "totalSupply (BlixnodeServer h t0) = 0"
  "difficulty (BlixnodeServer h t0) = 1"
  "genesisTime (BlixnodeServer h t0) = t0"
  "length (chain (BlixnodeServer h t0)) = 1"
  "chain (BlixnodeServer h t0) \<noteq> []"
  "reward (hd (chain (BlixnodeServer h t0))) = None"
  "index (hd (chain (BlixnodeServer h t0))) = 0"
  "hash (hd (chain (BlixnodeServer h t0))) = calculateBlockHash h (hd (chain (BlixnodeServer h t0)))"
  by (simp_all add: BlixnodeServer_def createGenesisBlock_def initial_def Let_def
      calculateBlockHash_def header_def)

text \<open>The chain and the state after a submission.\<close>

lemma header_miner: "header (b \<lparr> miner := m \<rparr>) = header b"
  by (simp add: header_def)

lemma block_digest_miner: "block_digest h (b \<lparr> miner := m \<rparr>) = block_digest h b"
  by (simp add: block_digest_def header_miner)

lemma calculateBlockHash_miner: "calculateBlockHash h (b \<lparr> miner := m \<rparr>) = calculateBlockHash h b"
  by (simp add: calculateBlockHash_to_hex block_digest_miner)

lemma submit_chain:
  "chain (fst (snd (handleSolutionSubmit h sock m s))) =
     (case currentChallenge s of
        None \<Rightarrow> chain s
      | Some c \<Rightarrow>
          if get_prop ''hash'' m = Some (JStr (calculateBlockHash h (candidate c m)))
             \<and> unat (block_digest h (candidate c m)) < calculateTarget (difficulty s)
          then chain s @ [(candidate c m) \<lparr> hash := calculateBlockHash h (candidate c m) \<rparr>]
          else chain s)"
proof (cases "currentChallenge s")
  case None
  then show ?thesis by (simp add: submit_no_round)
next
  case (Some c)
  show ?thesis
  proof (cases "get_prop ''hash'' m = Some (JStr (calculateBlockHash h (candidate c m)))")
    case False
    with Some show ?thesis by (simp add: submit_mismatch)
  next
    case True
    show ?thesis
    proof (cases "unat (block_digest h (candidate c m)) < calculateTarget (difficulty s)")
      case False
      with Some True show ?thesis by (simp add: submit_weak)
    next
      case meets: True
      with Some True show ?thesis
        by (simp add: submit_accepted [OF Some True meets refl] addBlock_fields)
    qed
  qed
qed

lemma submit_state:
  "\<exists>b. fst (snd (handleSolutionSubmit h sock m s)) = s
      \<or> fst (snd (handleSolutionSubmit h sock m s)) = addBlock b s
      \<or> fst (snd (handleSolutionSubmit h sock m s))
          = (addBlock b s) \<lparr> miningInProgress := False, currentChallenge := None \<rparr>"
proof (cases "currentChallenge s")
  case None
  then show ?thesis by (simp add: submit_no_round)
next
  case (Some c)
  show ?thesis
  proof (cases "get_prop ''hash'' m = Some (JStr (calculateBlockHash h (candidate c m)))")
    case False
    with Some show ?thesis by (simp add: submit_mismatch)
  next
    case True
    show ?thesis
    proof (cases "unat (block_digest h (candidate c m)) < calculateTarget (difficulty s)")
      case False
      with Some True show ?thesis by (simp add: submit_weak)
    next
      case meets: True
      show ?thesis
        using submit_accepted [OF Some True meets refl, of sock] by (cases "has_slice (get_prop ''walletAddress'' m)") auto
    qed
  qed
qed

text \<open>The grounds for rejection, on the digest.\<close>

lemma calculateTarget_positive: "1 \<le> d \<Longrightarrow> calculateTarget d = MAX_256BIT div nat d"
  by (simp add: calculateTarget_def max_def)

lemma spec_rejects_iff:
  assumes "1 \<le> difficulty s"
  shows "spec_rejects h m s \<longleftrightarrow>
     (case currentChallenge s of
        None \<Rightarrow> True
      | Some c \<Rightarrow>
          get_prop ''hash'' m \<noteq> Some (JStr (calculateBlockHash h (candidate c m)))
          \<or> \<not> unat (block_digest h (candidate c m)) < calculateTarget (difficulty s))"
  using assms
  by (simp add: spec_rejects_def Let_def calculateBlockHash_to_hex BigInt_hex_to_hex
      calculateTarget_positive split: option.split)

text \<open>Runs, and the pool of two wallets.\<close>

lemma onMessage_state:
  "is_object m \<Longrightarrow> truthy (get_prop ''type'' m) \<Longrightarrow>
   fst (onMessage h now sock m s) = fst (snd (handleMessage h now sock m s))"
  by (simp add: onMessage_def split: prod.split option.split)

lemma onMessage_join:
  "fst (onMessage h now sock (joinMessage a) s) = fst (snd (handlePoolJoin h now sock (joinMessage a) s))"
  by (simp add: onMessage_state joinMessage_def handleMessage_def)

lemma run_Nil: "run h [] s = s"
  by (simp add: run_def)

lemma run_Cons: "run h (e # evs) s = run h evs (fst (step h e s))"
  by (simp add: run_def)

lemma run_append: "run h (evs @ evs') s = run h evs' (run h evs s)"
  by (simp add: run_def)

lemma adjustDifficulty_short:
  "length (chain s) < DIFFICULTY_ADJUSTMENT_BLOCKS + 1 \<Longrightarrow> adjustDifficulty h now s = s"
  by (simp add: adjustDifficulty_def)

lemma pool_of_two_eq:
  "pool_of_two h = opened h 2 (joined walletB 12 2 (joined walletA 11 1 (BlixnodeServer h 0)))"
proof -
  have ne: "walletA \<noteq> walletB" by (simp add: walletA_def walletB_def)
  have 1: "fst (snd (handlePoolJoin h 1 11 (joinMessage walletA) (BlixnodeServer h 0)))
             = joined walletA 11 1 (BlixnodeServer h 0)"
    by (simp add: first_join BlixnodeServer_fields walletA_valid del: isValidAddress.simps)
  have 2: "fst (snd (handlePoolJoin h 2 12 (joinMessage walletB) (joined walletA 11 1 (BlixnodeServer h 0))))
             = opened h 2 (joined walletB 12 2 (joined walletA 11 1 (BlixnodeServer h 0)))"
    using ne
    by (intro second_join [where a = walletA and entry = "(11, 1)"])
       (simp_all add: joined_fields BlixnodeServer_fields walletB_valid del: isValidAddress.simps)
  show ?thesis
    by (simp add: pool_of_two_def two_joins_def run_Cons run_Nil onMessage_join 1 2)
qed

lemma pool_of_two_fields:
  "chain (pool_of_two h) = chain (BlixnodeServer h 0)"
  "difficulty (pool_of_two h) = 1"
  "totalSupply (pool_of_two h) = 0"
  "miningInProgress (pool_of_two h)"
  "currentChallenge (pool_of_two h) = Some (open_round h)"
  "index (blockTemplate (open_round h)) = 1"
  "previousHash (blockTemplate (open_round h)) = hash (hd (chain (BlixnodeServer h 0)))"
  "reward (blockTemplate (open_round h)) = Some 50"
proof -
  have len: "length (chain (BlixnodeServer h 0)) < DIFFICULTY_ADJUSTMENT_BLOCKS + 1"
    by (simp add: BlixnodeServer_fields DIFFICULTY_ADJUSTMENT_BLOCKS_def)
  define s where "s = joined walletB 12 2 (joined walletA 11 1 (BlixnodeServer h 0))"
  have s: "chain s = chain (BlixnodeServer h 0)" "difficulty s = 1" "pendingTransactions s = []"
    by (simp_all add: s_def joined_def BlixnodeServer_fields)
  have adj: "adjustDifficulty h 2 (s \<lparr> miningInProgress := True \<rparr>) = s \<lparr> miningInProgress := True \<rparr>"
    using len by (simp add: adjustDifficulty_short s)
  have adj': "adjustDifficulty h 2 s = s"
    using len by (simp add: adjustDifficulty_short s)
  have last: "last (chain (BlixnodeServer h 0)) = hd (chain (BlixnodeServer h 0))"
    using BlixnodeServer_fields(9) [of h 0]
    by (cases "chain (BlixnodeServer h 0)") simp_all
  have cc: "currentChallenge (pool_of_two h)
      = Some \<lparr> blockTemplate = \<lparr> index = 1, timestamp = 2,
                   previousHash = hash (hd (chain (BlixnodeServer h 0))),
                   merkleRoot = calculateMerkleRoot h [], nonce = None, blk_difficulty = 1,
                   miner = None, transactions = [], reward = Some 50, hash = [] \<rparr>,
                startedAt = 2, ch_difficulty = 1 \<rparr>"
    unfolding pool_of_two_eq s_def [symmetric]
    by (simp add: opened_def Let_def adj s last BlixnodeServer_fields
        calculateBlockReward_def HALVING_INTERVAL_def INITIAL_BLOCK_REWARD_def)
  show "chain (pool_of_two h) = chain (BlixnodeServer h 0)"
    by (simp add: pool_of_two_eq opened_fields joined_fields)
  show "difficulty (pool_of_two h) = 1"
    unfolding pool_of_two_eq s_def [symmetric] by (simp add: opened_fields adj' s)
  show "totalSupply (pool_of_two h) = 0"
    by (simp add: pool_of_two_eq opened_fields joined_fields BlixnodeServer_fields)
  show "miningInProgress (pool_of_two h)"
    by (simp add: pool_of_two_eq opened_fields)
  show "currentChallenge (pool_of_two h) = Some (open_round h)"
    by (simp add: open_round_def cc)
  show "index (blockTemplate (open_round h)) = 1"
    by (simp add: open_round_def cc)
  show "previousHash (blockTemplate (open_round h)) = hash (hd (chain (BlixnodeServer h 0)))"
    by (simp add: open_round_def cc)
  show "reward (blockTemplate (open_round h)) = Some 50"
    by (simp add: open_round_def cc)
qed

text \<open>Solutions that name no miner, and the small host's digests.\<close>

lemma anonymous_props:
  "is_object (anonymousSolution h c n)"
  "get_prop ''type'' (anonymousSolution h c n) = Some (JStr ''solution:submit'')"
  "get_prop ''walletAddress'' (anonymousSolution h c n) = None"
  "get_prop ''nonce'' (anonymousSolution h c n) = Some n"
  "get_prop ''hash'' (anonymousSolution h c n)
     = Some (JStr (calculateBlockHash h ((blockTemplate c) \<lparr> nonce := Some n \<rparr>)))"
  by (simp_all add: anonymousSolution_def)

lemma candidate_anonymous:
  "candidate c (anonymousSolution h c n) = (blockTemplate c) \<lparr> nonce := Some n, miner := None \<rparr>"
  by (simp add: candidate_def anonymous_props)

text \<open>An anonymous solution that meets the target is committed, the log line raises, and
  the listener's \<open>catch\<close> answers; the round is not touched.\<close>

lemma anonymous_commit:
  assumes round: "currentChallenge s = Some c"
    and meets: "unat (block_digest h ((blockTemplate c) \<lparr> nonce := Some n \<rparr>))
                  < calculateTarget (difficulty s)"
  shows "onMessage h now sock (anonymousSolution h c n) s
           = (addBlock (mined h c n) s, [Send sock (ErrorMsg ''Invalid message format'')])"
proof -
  let ?m = "anonymousSolution h c n"
  have hsh: "get_prop ''hash'' ?m = Some (JStr (calculateBlockHash h (candidate c ?m)))"
    by (simp add: anonymous_props candidate_anonymous calculateBlockHash_miner)
  have tgt: "unat (block_digest h (candidate c ?m)) < calculateTarget (difficulty s)"
    using meets by (simp add: candidate_anonymous block_digest_miner)
  have b: "mined h c n = (candidate c ?m) \<lparr> hash := calculateBlockHash h (candidate c ?m) \<rparr>"
    by (simp add: mined_def candidate_anonymous calculateBlockHash_miner)
  have "handleSolutionSubmit h sock ?m s = (Some TypeError, addBlock (mined h c n) s, [])"
    using submit_accepted [OF round hsh tgt b, of sock] by (simp add: anonymous_props)
  then show ?thesis
    by (simp add: onMessage_def handleMessage_def anonymous_props)
qed

lemma demo_fold_bound:
  "a < 65521 \<Longrightarrow> foldl (\<lambda>acc c. (31 * acc + of_char c) mod 65521) a bytes < (65521 :: nat)"
  by (induction bytes arbitrary: a) simp_all

lemma demo_digest_small: "unat (demo_digest bytes) < 65521"
proof -
  let ?n = "foldl (\<lambda>acc c. (31 * acc + of_char c) mod 65521) (7 :: nat) bytes"
  have "unat (word_of_nat ?n :: 256 word) \<le> ?n"
    by (simp add: unat_of_nat)
  moreover have "?n < 65521" by (rule demo_fold_bound) simp
  ultimately show ?thesis by (simp add: demo_digest_def)
qed

lemma demo_meets_easy_target: "unat (block_digest demo b) < calculateTarget 1"
proof -
  have "unat (block_digest demo b) < 65521"
    by (simp add: block_digest_def demo_def demo_digest_small)
  moreover have "(65521 :: nat) \<le> calculateTarget 1"
    by (simp add: calculateTarget_def MAX_256BIT_def)
  ultimately show ?thesis by linarith
qed

text \<open>The supply invariant holds after construction and after every event.\<close>

lemma onClose_fields:
  "chain (fst (onClose sock s)) = chain s"
  "totalSupply (fst (onClose sock s)) = totalSupply s"
  "difficulty (fst (onClose sock s)) = difficulty s"
  by (simp_all add: onClose_def Let_def split: option.split)

lemma submitTransaction_fields:
  "chain (fst (submitTransaction h tx s)) = chain s"
  "totalSupply (fst (submitTransaction h tx s)) = totalSupply s"
  "difficulty (fst (submitTransaction h tx s)) = difficulty s"
  by (simp_all add: submitTransaction_def Let_def split: option.split)

lemma supply_ok_cong:
  "chain s' = chain s \<Longrightarrow> totalSupply s' = totalSupply s \<Longrightarrow> supply_ok s \<Longrightarrow> supply_ok s'"
  by (simp add: supply_ok_def)

lemma accumulated_snoc: "accumulated (bs @ [b]) = dadd (accumulated bs) (reward_or_0 b)"
  by (simp add: accumulated_def)

lemma supply_ok_addBlock: "supply_ok s \<Longrightarrow> supply_ok (addBlock b s)"
  by (simp add: supply_ok_def addBlock_fields accumulated_snoc)

lemma supply_ok_submit:
  assumes "supply_ok s"
  shows "supply_ok (fst (snd (handleSolutionSubmit h sock m s)))"
proof -
  obtain b where
    "fst (snd (handleSolutionSubmit h sock m s)) = s
      \<or> fst (snd (handleSolutionSubmit h sock m s)) = addBlock b s
      \<or> fst (snd (handleSolutionSubmit h sock m s))
          = (addBlock b s) \<lparr> miningInProgress := False, currentChallenge := None \<rparr>"
    using submit_state by blast
  then show ?thesis
    using assms supply_ok_addBlock [OF assms, of b]
    by (auto simp: supply_ok_def)
qed

lemma supply_ok_handleMessage:
  "supply_ok s \<Longrightarrow> supply_ok (fst (snd (handleMessage h now sock m s)))"
  by (auto simp: handleMessage_def supply_ok_submit
      intro: supply_ok_cong [OF handlePoolJoin_fields])

lemma supply_ok_onMessage:
  "supply_ok s \<Longrightarrow> supply_ok (fst (onMessage h now sock m s))"
  using supply_ok_handleMessage [of s h now sock m]
  by (auto simp: onMessage_def split: prod.split option.split)

lemma supply_ok_step: "supply_ok s \<Longrightarrow> supply_ok (fst (step h e s))"
proof (cases e)
  case (Pair now ev)
  assume ok: "supply_ok s"
  show ?thesis
  proof (cases ev)
    case (WsMessage sock m)
    with Pair ok show ?thesis by (simp add: supply_ok_onMessage)
  next
    case (WsOversized sock)
    with Pair ok show ?thesis by simp
  next
    case (WsUnparseable sock)
    with Pair ok show ?thesis by simp
  next
    case (WsClose sock)
    with Pair ok show ?thesis
      by (simp add: supply_ok_cong [OF onClose_fields(1,2)])
  next
    case (PostTransaction tx)
    with Pair ok show ?thesis
      by (simp add: supply_ok_cong [OF submitTransaction_fields(1,2)])
  next
    case TimerFired
    have "supply_ok (fst (snd (startMiningRound h now s)))"
      using ok by (rule supply_ok_cong [OF startMiningRound_fields(1,2)])
    with Pair TimerFired show ?thesis by (simp add: case_prod_beta)
  qed
qed

lemma supply_ok_run: "supply_ok s \<Longrightarrow> supply_ok (run h evs s)"
  by (induction evs arbitrary: s) (simp_all add: run_Nil run_Cons supply_ok_step)

lemma supply_ok_new: "supply_ok (BlixnodeServer h t0)"
proof -
  obtain g where g: "chain (BlixnodeServer h t0) = [g]"
    using BlixnodeServer_fields(9) [of h t0]
    by (cases "chain (BlixnodeServer h t0)") simp_all
  then show ?thesis
    by (simp add: supply_ok_def BlixnodeServer_fields accumulated_def)
qed

text \<open>Additions that round.\<close>

lemma rounded_sums:
  "dadd 50 (25 / 576460752303423488) = 50"
  "dadd (352320696811075 / 16777216) (25 / 536870912) = 1409282787244303 / 67108864"
  by code_simp+

text \<open>Admission of a transaction.\<close>

lemma validate_object: "validateTransaction h tx = None \<Longrightarrow> is_object tx"
  by (simp add: validateTransaction_def split: if_splits)

lemma submit_admitted:
  assumes "validateTransaction h tx = None"
    and "Some (JStr (sha256 h (stringify h (canonical tx)))) \<notin> set (processedTxIds s)"
    and "length (pendingTransactions s) < MAX_PENDING_TRANSACTIONS"
  shows "submitTransaction h tx s
     = (s \<lparr> pendingTransactions := pendingTransactions s
               @ [set_prop ''id'' (JStr (sha256 h (stringify h (canonical tx)))) tx] \<rparr>,
        [Broadcast (TransactionNew (set_prop ''id'' (JStr (sha256 h (stringify h (canonical tx)))) tx)),
         Respond (Success (sha256 h (stringify h (canonical tx))))])"
  using assms validate_object [OF assms(1)]
  by (simp add: submitTransaction_def Let_def)

lemma canonical_transfer: "canonical transfer = transfer_payload"
  by (simp add: canonical_def transfer_def transfer_payload_def)

lemma transfer_valid: "validateTransaction demo transfer = None"
proof -
  have props:
    "get_prop ''sender'' transfer = Some (JStr walletA)"
    "get_prop ''recipient'' transfer = Some (JStr walletB)"
    "get_prop ''amount'' transfer = Some (JNum 5)"
    "get_prop ''fee'' transfer = Some (JNum (1 / 100))"
    "get_prop ''nonce'' transfer = Some (JNum 0)"
    "get_prop ''timestamp'' transfer = Some (JNum 1700000000000)"
    "get_prop ''signature'' transfer
       = Some (JObj [(''messageHash'', JStr (sha256 demo (stringify demo transfer_payload)))])"
    "get_prop ''senderPublicKey'' transfer = Some (JStr ''02aa'')"
    "is_object transfer"
    by (simp_all add: transfer_def)
  have nonempty: "walletA \<noteq> []" "walletB \<noteq> []"
    by (simp_all add: walletA_def walletB_def)
  show ?thesis
    by (simp add: validateTransaction_def props walletA_valid walletB_valid nonempty
        MIN_TRANSACTION_FEE_def verify_def canonical_transfer sha256_def
        del: isValidAddress.simps)
qed

text \<open>The difficulty adjustment on a chain of more than ten blocks.\<close>

lemma clamp_ratio_eq: "clamp_ratio r = max (1 / 2) (min 2 r)"
  by (simp add: clamp_ratio_def max_def min_def)

lemma ratio_bounds: "1 / 2 \<le> ratio s" "ratio s \<le> 2"
  by (simp_all add: ratio_def clamp_ratio_def)

lemma recent_blocks:
  assumes "DIFFICULTY_ADJUSTMENT_BLOCKS + 1 \<le> length (chain s)"
  shows "timestamp (drop (length (chain s) - DIFFICULTY_ADJUSTMENT_BLOCKS) (chain s)
                      ! (length (drop (length (chain s) - DIFFICULTY_ADJUSTMENT_BLOCKS) (chain s)) - 1))
           - timestamp (drop (length (chain s) - DIFFICULTY_ADJUSTMENT_BLOCKS) (chain s) ! 0)
         = actualTime s"
proof -
  let ?n = "length (chain s)"
  let ?k = "DIFFICULTY_ADJUSTMENT_BLOCKS"
  have k: "?k = 10" by (simp add: DIFFICULTY_ADJUSTMENT_BLOCKS_def)
  have ne: "chain s \<noteq> []" using assms by auto
  have "drop (?n - ?k) (chain s) ! (length (drop (?n - ?k) (chain s)) - 1) = chain s ! (?n - 1)"
    using assms by (simp add: k)
  also have "\<dots> = last (chain s)" using ne by (simp add: last_conv_nth)
  finally have 1: "drop (?n - ?k) (chain s) ! (length (drop (?n - ?k) (chain s)) - 1) = last (chain s)" .
  have 2: "drop (?n - ?k) (chain s) ! 0 = chain s ! (?n - ?k)"
    using assms by (simp add: k)
  show ?thesis by (simp only: 1 2 actualTime_def)
qed

lemma adjustDifficulty_long:
  assumes "DIFFICULTY_ADJUSTMENT_BLOCKS + 1 \<le> length (chain s)"
  shows "adjustDifficulty h now s =
     s \<lparr> difficulty :=
           max 1 \<lfloor>dmul (dmul (dmul (of_int (difficulty s)) (ratio s)) (supplyFactor h s))
                        (timeFactor h now s)\<rfloor> \<rparr>"
proof -
  have not_short: "\<not> length (chain s) < DIFFICULTY_ADJUSTMENT_BLOCKS + 1"
    using assms by simp
  have sf: "Math_pow h (double (10001 / 10000)) (ddiv (totalSupply s) 1000000) = supplyFactor h s"
    by (simp add: supplyFactor_def)
  have tf: "Math_pow h (double (100005 / 100000)) (ddiv (of_int (now - genesisTime s)) 86400000)
              = timeFactor h now s"
    by (simp add: timeFactor_def)
  have r: "(if actualTime s = 0 then 2
            else max (1 / 2) (min 2 (ddiv (of_int (TARGET_BLOCK_TIME_MS * int DIFFICULTY_ADJUSTMENT_BLOCKS))
                                          (of_int (actualTime s))))) = ratio s"
    by (simp only: ratio_def clamp_ratio_eq)
  show ?thesis
    unfolding adjustDifficulty_def Let_def recent_blocks [OF assms] sf tf r
    using not_short by simp
qed

text \<open>No event brings the difficulty below 1.\<close>

lemma submit_difficulty:
  "difficulty (fst (snd (handleSolutionSubmit h sock m s))) = difficulty s"
  using submit_state [of h sock m s] by (auto simp: addBlock_fields)

lemma handleMessage_positive:
  "1 \<le> difficulty s \<Longrightarrow> 1 \<le> difficulty (fst (snd (handleMessage h now sock m s)))"
  by (simp add: handleMessage_def submit_difficulty handlePoolJoin_positive)

lemma step_positive: "1 \<le> difficulty s \<Longrightarrow> 1 \<le> difficulty (fst (step h e s))"
proof (cases e)
  case (Pair now ev)
  assume d: "1 \<le> difficulty s"
  show ?thesis
  proof (cases ev)
    case (WsMessage sock m)
    with Pair d handleMessage_positive [OF d, of h now sock m] show ?thesis
      by (auto simp: onMessage_def split: prod.split option.split)
  next
    case (WsOversized sock)
    with Pair d show ?thesis by simp
  next
    case (WsUnparseable sock)
    with Pair d show ?thesis by simp
  next
    case (WsClose sock)
    with Pair d show ?thesis by (simp add: onClose_fields)
  next
    case (PostTransaction tx)
    with Pair d show ?thesis by (simp add: submitTransaction_fields)
  next
    case TimerFired
    with Pair startMiningRound_positive [OF d, of h now] show ?thesis
      by (simp add: case_prod_beta)
  qed
qed

text \<open>The difficulty of a coordinator is at least 1 at every moment.\<close>

lemma difficulty_positive_run: "1 \<le> difficulty (run h evs (BlixnodeServer h t0))"
proof -
  have "1 \<le> difficulty s \<Longrightarrow> 1 \<le> difficulty (run h evs s)" for s
    by (induction evs arbitrary: s) (simp_all add: run_Nil run_Cons step_positive)
  then show ?thesis by (simp add: BlixnodeServer_fields)
qed

section \<open>Merkle root\<close>

text \<open>
  C4.  The Merkle root of the empty list is the fixed value \<open>sha256('empty')\<close>; the root of
  a two-element list \<open>[A, B]\<close> is \<open>H(H(A) + H(B))\<close>; the root of a one-element list \<open>[A]\<close>
  is \<open>H(A)\<close> itself, since the pairing loop does not run on a single hash.  Here \<open>H(A)\<close>
  is SHA-256 of the transaction, serialised unless it is a string.
\<close>

theorem merkle_root_small_lists:
  "calculateMerkleRoot h [] = sha256 h ''empty''
   \<and> calculateMerkleRoot h [A] = tx_leaf h A
   \<and> calculateMerkleRoot h [A, B] = sha256 h (tx_leaf h A @ tx_leaf h B)"
  by (simp add: calculateMerkleRoot_def merkle_loop.simps tx_leaf_def sha256_not_empty)

text \<open>On the small host, the root of the one-element list \<open>['a']\<close> is not
  \<open>H(H(A) + H(A))\<close>.\<close>

theorem merkle_singleton_counterexample:
  "calculateMerkleRoot demo [JStr ''a'']
     \<noteq> sha256 demo (tx_leaf demo (JStr ''a'') @ tx_leaf demo (JStr ''a''))"
  by (simp add: calculateMerkleRoot_def tx_leaf_def merkle_loop.simps demo_eval)

section \<open>Block reward\<close>

text \<open>
  C7.  After 33 halvings (a chain of 6,930,000 blocks) \<open>calculateBlockReward\<close> returns
  \<open>50 / 2^33\<close>, which is below one unit of the eighth decimal: the result is not held at
  a minimum unit.  At heights 0, 210,000 and 420,000 the reward is 50, half of it and a
  quarter of it.
\<close>

theorem reward_below_minimum_unit:
  "calculateBlockReward (s \<lparr> chain := replicate 6930000 b \<rparr>) = 50 / 2 ^ 33
   \<and> calculateBlockReward (s \<lparr> chain := replicate 6930000 b \<rparr>) < 1 / 10 ^ DECIMALS
   \<and> calculateBlockReward (s \<lparr> chain := [] \<rparr>) = 50
   \<and> calculateBlockReward (s \<lparr> chain := replicate 210000 b \<rparr>) = 50 / 2
   \<and> calculateBlockReward (s \<lparr> chain := replicate 420000 b \<rparr>) = 50 / 4"
  by (simp add: calculateBlockReward_def HALVING_INTERVAL_def INITIAL_BLOCK_REWARD_def
      DECIMALS_def)

section \<open>Membership\<close>



section \<open>The miner and the proof of work\<close>

text \<open>
  C9.  The block hash is computed from index, timestamp, previousHash, merkleRoot, nonce and
  difficulty only: changing miner, transactions, reward or hash leaves it as it is.  Two
  submissions that differ only in the wallet address they claim are therefore checked
  against the same hash, and one commits a block exactly when the other does.
\<close>

theorem proof_of_work_ignores_miner:
  "calculateBlockHash h (b \<lparr> miner := w, transactions := txs, reward := r, hash := x \<rparr>)
     = calculateBlockHash h b
   \<and> calculateBlockHash h (candidate c (JObj ((''walletAddress'', a1) # rest)))
     = calculateBlockHash h (candidate c (JObj ((''walletAddress'', a2) # rest)))
   \<and> length (chain (fst (snd
        (handleSolutionSubmit h sock (JObj ((''walletAddress'', a1) # rest)) s))))
     = length (chain (fst (snd
        (handleSolutionSubmit h sock (JObj ((''walletAddress'', a2) # rest)) s))))"
proof -
  have fields: "calculateBlockHash h (b \<lparr> miner := w, transactions := txs, reward := r, hash := x \<rparr>)
     = calculateBlockHash h b"
    by (simp add: calculateBlockHash_def header_def)
  have cand: "candidate c (JObj ((''walletAddress'', a) # rest))
      = (candidate c (JObj rest)) \<lparr> miner := Some a \<rparr>" for c a
    by (simp add: candidate_def)
  have hsh: "get_prop ''hash'' (JObj ((''walletAddress'', a) # rest)) = get_prop ''hash'' (JObj rest)" for a
    by simp
  have len: "length (chain (fst (snd
        (handleSolutionSubmit h sock (JObj ((''walletAddress'', a) # rest)) s))))
      = (case currentChallenge s of
           None \<Rightarrow> length (chain s)
         | Some c \<Rightarrow>
             if get_prop ''hash'' (JObj rest) = Some (JStr (calculateBlockHash h (candidate c (JObj rest))))
                \<and> unat (block_digest h (candidate c (JObj rest))) < calculateTarget (difficulty s)
             then Suc (length (chain s)) else length (chain s))" for a
    unfolding submit_chain hsh cand calculateBlockHash_miner block_digest_miner
    by (simp split: option.split)
  show ?thesis
    unfolding len by (simp add: fields cand calculateBlockHash_miner)
qed

section \<open>Rejected submissions\<close>

text \<open>
  C5.  With a difficulty of at least 1, a submission is rejected, that is, answered with
  one of the three rejection messages sent to the submitter alone, exactly when no round is
  active, or the recomputed header hash is not the submitted hash, or the hash as an
  unsigned integer is not below \<open>MAX_256BIT / difficulty\<close>.  A rejection raises nothing and
  leaves the whole state as it was; any other submission appends a block to the chain.
\<close>

theorem solution_rejected_exactly_when:
  assumes "1 \<le> difficulty s"
  shows "case handleSolutionSubmit h sock message s of
           (err, s', out) \<Rightarrow>
             (spec_rejects h message s \<longleftrightarrow> rejection sock out)
             \<and> (spec_rejects h message s \<longrightarrow> err = None \<and> s' = s)
             \<and> (\<not> spec_rejects h message s \<longrightarrow> length (chain s') = Suc (length (chain s)))"
proof (cases "currentChallenge s")
  case None
  with assms show ?thesis
    by (simp add: submit_no_round spec_rejects_iff rejection_def)
next
  case (Some c)
  show ?thesis
  proof (cases "get_prop ''hash'' message = Some (JStr (calculateBlockHash h (candidate c message)))")
    case False
    with Some assms show ?thesis
      by (simp add: submit_mismatch spec_rejects_iff rejection_def)
  next
    case True
    show ?thesis
    proof (cases "unat (block_digest h (candidate c message)) < calculateTarget (difficulty s)")
      case False
      with Some True assms show ?thesis
        by (simp add: submit_weak spec_rejects_iff rejection_def)
    next
      case meets: True
      with Some True assms show ?thesis
        by (simp add: submit_accepted [OF Some True meets refl] spec_rejects_iff rejection_def
            addBlock_fields)
    qed
  qed
qed

theorem solution_rejected_exactly_when_witness:
  "1 \<le> difficulty (pool_of_two demo)
   \<and> spec_rejects demo (JObj [(''type'', JStr ''solution:submit''), (''hash'', JStr ''00'')])
        (pool_of_two demo)
   \<and> fst (snd (handleSolutionSubmit demo 13
        (JObj [(''type'', JStr ''solution:submit''), (''hash'', JStr ''00'')]) (pool_of_two demo)))
       = pool_of_two demo
   \<and> \<not> spec_rejects demo (anonymousSolution demo (open_round demo) (JNum 0)) (pool_of_two demo)
   \<and> length (chain (fst (snd (handleSolutionSubmit demo 13
        (anonymousSolution demo (open_round demo) (JNum 0)) (pool_of_two demo))))) = 2"
proof -
  let ?bad = "JObj [(''type'', JStr ''solution:submit''), (''hash'', JStr ''00'')]"
  let ?good = "anonymousSolution demo (open_round demo) (JNum 0)"
  have d: "1 \<le> difficulty (pool_of_two demo)"
    by (simp add: pool_of_two_fields)
  have ne: "calculateBlockHash demo b \<noteq> ''00''" for b
  proof
    assume "calculateBlockHash demo b = ''00''"
    then have "length (calculateBlockHash demo b) = 2" by simp
    then show False by (simp add: calculateBlockHash_to_hex length_to_hex)
  qed
  have bad: "spec_rejects demo ?bad (pool_of_two demo)"
    using ne ne [symmetric] by (simp add: spec_rejects_iff [OF d] pool_of_two_fields)
  have good: "\<not> spec_rejects demo ?good (pool_of_two demo)"
    by (simp add: spec_rejects_iff [OF d] pool_of_two_fields anonymous_props candidate_anonymous
        calculateBlockHash_miner block_digest_miner demo_meets_easy_target)
  show ?thesis
    using solution_rejected_exactly_when [OF d, where h = demo and sock = 13 and message = ?bad]
      solution_rejected_exactly_when [OF d, where h = demo and sock = 13 and message = ?good]
      d bad good
    by (simp add: pool_of_two_fields BlixnodeServer_fields split: prod.splits)
qed

section \<open>One block per round\<close>

text \<open>
  C1.  A submission that carries no wallet address and passes the hash and target checks
  is committed; the log line that follows \<open>addBlock\<close> then raises, so the round is not
  cleared.  The same submission sent again is not answered with "No active challenge": it
  commits a second block for the same round.
\<close>

theorem round_survives_commit:
  assumes "currentChallenge s = Some c"
    and "unat (block_digest h ((blockTemplate c) \<lparr> nonce := Some n \<rparr>))
           < calculateTarget (difficulty s)"
  shows "let m = anonymousSolution h c n;
             s1 = fst (onMessage h t1 sock m s);
             s2 = fst (onMessage h t2 sock m s1)
         in chain s1 = chain s @ [mined h c n] \<and> currentChallenge s1 = Some c
            \<and> chain s2 = chain s @ [mined h c n, mined h c n]
            \<and> snd (onMessage h t2 sock m s1) \<noteq> [Send sock (ErrorMsg ''No active challenge'')]"
proof -
  let ?m = "anonymousSolution h c n"
  let ?s1 = "addBlock (mined h c n) s"
  have 1: "onMessage h t1 sock ?m s = (?s1, [Send sock (ErrorMsg ''Invalid message format'')])"
    using assms by (rule anonymous_commit)
  have round: "currentChallenge ?s1 = Some c"
    using assms(1) by (simp add: addBlock_fields)
  have meets: "unat (block_digest h ((blockTemplate c) \<lparr> nonce := Some n \<rparr>))
                 < calculateTarget (difficulty ?s1)"
    using assms(2) by (simp add: addBlock_fields)
  have 2: "onMessage h t2 sock ?m ?s1
             = (addBlock (mined h c n) ?s1, [Send sock (ErrorMsg ''Invalid message format'')])"
    using round meets by (rule anonymous_commit)
  show ?thesis
    using assms(1) by (simp add: Let_def 1 2 addBlock_fields)
qed

theorem round_survives_commit_witness:
  "currentChallenge (pool_of_two demo) = Some (open_round demo)
   \<and> unat (block_digest demo ((blockTemplate (open_round demo)) \<lparr> nonce := Some (JNum 0) \<rparr>))
       < calculateTarget (difficulty (pool_of_two demo))
   \<and> (let m = anonymousSolution demo (open_round demo) (JNum 0);
           s1 = fst (onMessage demo 3 13 m (pool_of_two demo));
           s2 = fst (onMessage demo 4 13 m s1)
       in length (chain s1) = 2 \<and> currentChallenge s1 \<noteq> None \<and> length (chain s2) = 3)"
proof -
  have round: "currentChallenge (pool_of_two demo) = Some (open_round demo)"
    by (rule pool_of_two_fields)
  have meets: "unat (block_digest demo ((blockTemplate (open_round demo)) \<lparr> nonce := Some (JNum 0) \<rparr>))
       < calculateTarget (difficulty (pool_of_two demo))"
    by (simp add: pool_of_two_fields demo_meets_easy_target)
  show ?thesis
    using round_survives_commit [OF round meets, of 3 13 4] round meets
    by (simp add: Let_def pool_of_two_fields BlixnodeServer_fields)
qed

section \<open>Chain linkage\<close>

text \<open>
  C2.  After two wallets have joined a new coordinator and the same anonymous solution for
  the open round has arrived twice, the chain has three blocks, and the block at position 2
  has index 1 and the hash of the genesis block, at position 0, as its previous hash.
\<close>

theorem chain_index_differs_from_position:
  assumes "unat (block_digest h ((blockTemplate (open_round h)) \<lparr> nonce := Some n \<rparr>))
             < calculateTarget 1"
  shows "let s = run h (solved_twice h n) (BlixnodeServer h 0)
         in length (chain s) = 3 \<and> index (chain s ! 2) = 1
            \<and> previousHash (chain s ! 2) = calculateBlockHash h (chain s ! 0)"
proof -
  let ?m = "anonymousSolution h (open_round h) n"
  let ?b = "mined h (open_round h) n"
  let ?s2 = "pool_of_two h"
  let ?s3 = "addBlock ?b ?s2"
  have round: "currentChallenge ?s2 = Some (open_round h)"
    by (rule pool_of_two_fields)
  have meets: "unat (block_digest h ((blockTemplate (open_round h)) \<lparr> nonce := Some n \<rparr>))
                 < calculateTarget (difficulty ?s2)"
    using assms by (simp add: pool_of_two_fields)
  have 3: "onMessage h 3 13 ?m ?s2 = (?s3, [Send 13 (ErrorMsg ''Invalid message format'')])"
    using round meets by (rule anonymous_commit)
  have round': "currentChallenge ?s3 = Some (open_round h)"
    using round by (simp add: addBlock_fields)
  have meets': "unat (block_digest h ((blockTemplate (open_round h)) \<lparr> nonce := Some n \<rparr>))
                  < calculateTarget (difficulty ?s3)"
    using meets by (simp add: addBlock_fields)
  have 4: "onMessage h 4 13 ?m ?s3
             = (addBlock ?b ?s3, [Send 13 (ErrorMsg ''Invalid message format'')])"
    using round' meets' by (rule anonymous_commit)
  have run: "run h (solved_twice h n) (BlixnodeServer h 0) = addBlock ?b ?s3"
    by (simp add: solved_twice_def run_append run_Cons run_Nil pool_of_two_def [symmetric] 3 4)
  obtain g where g: "chain (BlixnodeServer h 0) = [g]"
    using BlixnodeServer_fields(9) [of h 0]
    by (cases "chain (BlixnodeServer h 0)") simp_all
  have prev: "previousHash ?b = calculateBlockHash h g"
    using BlixnodeServer_fields(13) [of h 0]
    by (simp add: mined_def pool_of_two_fields g)
  have idx: "index ?b = 1"
    by (simp add: mined_def pool_of_two_fields)
  show ?thesis
    by (simp add: Let_def run addBlock_fields pool_of_two_fields g prev idx)
qed

theorem chain_index_differs_from_position_witness:
  "unat (block_digest demo ((blockTemplate (open_round demo)) \<lparr> nonce := Some (JNum 0) \<rparr>))
     < calculateTarget 1
   \<and> index (chain (run demo (solved_twice demo (JNum 0)) (BlixnodeServer demo 0)) ! 2) = 1"
  using chain_index_differs_from_position [where h = demo and n = "JNum 0"]
    demo_meets_easy_target
  by (simp add: Let_def)

section \<open>Supply\<close>

text \<open>
  C10.  \<open>addBlock\<close> makes the chain one block longer and sets the supply to the double
  nearest to the sum of the supply and the reward of the block, or 0 when the block has no
  reward.  After any sequence of events on a new coordinator, the supply is what the
  rewards of the blocks after the genesis block accumulate to, added from left to right
  in double arithmetic.
\<close>

theorem supply_is_accumulated_rewards:
  "length (chain (addBlock b s)) = length (chain s) + 1
   \<and> totalSupply (addBlock b s) = dadd (totalSupply s) (reward_or_0 b)
   \<and> totalSupply (run h evs (BlixnodeServer h t0))
       = accumulated (tl (chain (run h evs (BlixnodeServer h t0))))"
proof -
  have "supply_ok (run h evs (BlixnodeServer h t0))"
    by (rule supply_ok_run [OF supply_ok_new])
  then show ?thesis by (simp add: addBlock_fields supply_ok_def)
qed

text \<open>Two commits after which the supply has grown by less than the reward: a reward of
  \<open>50 / 2^60\<close> on a supply of 50 leaves the supply at 50, and the block of height 6,300,000
  adds \<open>3 / 2^26\<close> where its reward is \<open>25 / 2^29\<close>.\<close>

theorem supply_grows_by_less_than_reward:
  "totalSupply (addBlock (paying 1 (50 / 2 ^ 60)) (supplied 50)) = 50
   \<and> totalSupply (addBlock (paying 1 (50 / 2 ^ 60)) (supplied 50))
       \<noteq> totalSupply (supplied 50) + reward_or_0 (paying 1 (50 / 2 ^ 60))
   \<and> totalSupply (addBlock (paying 6300000 (50 / 2 ^ 30)) (supplied (352320696811075 / 16777216)))
       = totalSupply (supplied (352320696811075 / 16777216)) + 3 / 67108864
   \<and> totalSupply (addBlock (paying 6300000 (50 / 2 ^ 30)) (supplied (352320696811075 / 16777216)))
       \<noteq> totalSupply (supplied (352320696811075 / 16777216))
           + reward_or_0 (paying 6300000 (50 / 2 ^ 30))"
  by (simp add: addBlock_fields supplied_def paying_def reward_or_0_def rounded_sums)

section \<open>Replay of a pending transaction\<close>

text \<open>
  C3.  A valid transaction whose id is not among the processed ids is admitted; submitted
  again while it is still pending (and the pool has room) it is admitted again, with the
  same id, and the pool then holds it twice: ids enter \<open>processedTxIds\<close> only when a block
  is committed.
\<close>

theorem same_transaction_admitted_twice:
  assumes "validateTransaction h tx = None"
    and "Some (JStr (sha256 h (stringify h (canonical tx)))) \<notin> set (processedTxIds s)"
    and "length (pendingTransactions s) + 1 < MAX_PENDING_TRANSACTIONS"
  shows "let txid = sha256 h (stringify h (canonical tx));
             stored = set_prop ''id'' (JStr txid) tx;
             s1 = fst (submitTransaction h tx s)
         in snd (submitTransaction h tx s)
              = [Broadcast (TransactionNew stored), Respond (Success txid)]
            \<and> snd (submitTransaction h tx s1)
              = [Broadcast (TransactionNew stored), Respond (Success txid)]
            \<and> pendingTransactions (fst (submitTransaction h tx s1))
              = pendingTransactions s @ [stored, stored]"
proof -
  let ?txid = "sha256 h (stringify h (canonical tx))"
  let ?stored = "set_prop ''id'' (JStr ?txid) tx"
  let ?s1 = "s \<lparr> pendingTransactions := pendingTransactions s @ [?stored] \<rparr>"
  have 1: "submitTransaction h tx s
             = (?s1, [Broadcast (TransactionNew ?stored), Respond (Success ?txid)])"
    using assms by (intro submit_admitted) simp_all
  have 2: "submitTransaction h tx ?s1
             = (?s1 \<lparr> pendingTransactions := pendingTransactions ?s1 @ [?stored] \<rparr>,
                [Broadcast (TransactionNew ?stored), Respond (Success ?txid)])"
    using assms by (intro submit_admitted) simp_all
  show ?thesis by (simp add: Let_def 1 2)
qed

theorem same_transaction_admitted_twice_witness:
  "validateTransaction demo transfer = None
   \<and> Some (JStr (sha256 demo (stringify demo (canonical transfer))))
        \<notin> set (processedTxIds (BlixnodeServer demo 0))
   \<and> length (pendingTransactions (BlixnodeServer demo 0)) + 1 < MAX_PENDING_TRANSACTIONS
   \<and> length (pendingTransactions (fst (submitTransaction demo transfer
        (fst (submitTransaction demo transfer (BlixnodeServer demo 0)))))) = 2"
proof -
  have v: "validateTransaction demo transfer = None" by (rule transfer_valid)
  have fresh: "Some (JStr (sha256 demo (stringify demo (canonical transfer))))
        \<notin> set (processedTxIds (BlixnodeServer demo 0))"
    by (simp add: BlixnodeServer_fields)
  have room: "length (pendingTransactions (BlixnodeServer demo 0)) + 1 < MAX_PENDING_TRANSACTIONS"
    by (simp add: BlixnodeServer_fields MAX_PENDING_TRANSACTIONS_def)
  show ?thesis
    using same_transaction_admitted_twice [OF v fresh room] v fresh room
    by (simp add: Let_def BlixnodeServer_fields)
qed

section \<open>Difficulty\<close>

text \<open>
  C6.  \<open>adjustDifficulty\<close> changes nothing while the chain has fewer than
  \<open>DIFFICULTY_ADJUSTMENT_BLOCKS + 1\<close> blocks.  Otherwise the new difficulty is
  \<open>max 1 (floor (((old * ratio) * supplyFactor) * timeFactor))\<close> with each product rounded
  to the nearest double, where the ratio lies in \<open>[1/2, 2]\<close>: it is the quotient of
  doubles of the expected time and the time the last ten blocks span, clamped, and 2 when
  that span is zero.  So the adjusted difficulty is at least 1.
\<close>

theorem difficulty_adjustment_in_doubles:
  "(length (chain s) < DIFFICULTY_ADJUSTMENT_BLOCKS + 1 \<longrightarrow> adjustDifficulty h now s = s)
   \<and> (DIFFICULTY_ADJUSTMENT_BLOCKS + 1 \<le> length (chain s) \<longrightarrow>
        difficulty (adjustDifficulty h now s)
          = max 1 \<lfloor>dmul (dmul (dmul (of_int (difficulty s)) (ratio s)) (supplyFactor h s))
                         (timeFactor h now s)\<rfloor>
        \<and> 1 / 2 \<le> ratio s \<and> ratio s \<le> 2
        \<and> (actualTime s \<noteq> 0 \<longrightarrow>
             ratio s = clamp_ratio
                 (ddiv (of_int (TARGET_BLOCK_TIME_MS * int DIFFICULTY_ADJUSTMENT_BLOCKS))
                       (of_int (actualTime s))))
        \<and> (actualTime s = 0 \<longrightarrow> ratio s = 2)
        \<and> 1 \<le> difficulty (adjustDifficulty h now s))"
proof (rule conjI; rule impI)
  assume "length (chain s) < DIFFICULTY_ADJUSTMENT_BLOCKS + 1"
  then show "adjustDifficulty h now s = s" by (rule adjustDifficulty_short)
next
  assume long: "DIFFICULTY_ADJUSTMENT_BLOCKS + 1 \<le> length (chain s)"
  have d: "difficulty (adjustDifficulty h now s)
          = max 1 \<lfloor>dmul (dmul (dmul (of_int (difficulty s)) (ratio s)) (supplyFactor h s))
                         (timeFactor h now s)\<rfloor>"
    by (simp add: adjustDifficulty_long [OF long])
  have pos: "1 \<le> difficulty (adjustDifficulty h now s)"
    by (simp add: d)
  have r: "(actualTime s \<noteq> 0 \<longrightarrow>
             ratio s = clamp_ratio
                 (ddiv (of_int (TARGET_BLOCK_TIME_MS * int DIFFICULTY_ADJUSTMENT_BLOCKS))
                       (of_int (actualTime s))))
        \<and> (actualTime s = 0 \<longrightarrow> ratio s = 2)"
    by (simp add: ratio_def)
  from d pos r ratio_bounds [of s]
  show "difficulty (adjustDifficulty h now s)
          = max 1 \<lfloor>dmul (dmul (dmul (of_int (difficulty s)) (ratio s)) (supplyFactor h s))
                         (timeFactor h now s)\<rfloor>
        \<and> 1 / 2 \<le> ratio s \<and> ratio s \<le> 2
        \<and> (actualTime s \<noteq> 0 \<longrightarrow>
             ratio s = clamp_ratio
                 (ddiv (of_int (TARGET_BLOCK_TIME_MS * int DIFFICULTY_ADJUSTMENT_BLOCKS))
                       (of_int (actualTime s))))
        \<and> (actualTime s = 0 \<longrightarrow> ratio s = 2)
        \<and> 1 \<le> difficulty (adjustDifficulty h now s)"
    by blast
qed

text \<open>At difficulty 11, with the last ten blocks spanning 2,640,000 ms and both growth
  factors 1, the rounded products give 14 where the formula in exact arithmetic gives
  15.\<close>

theorem difficulty_differs_from_exact_formula:
  "DIFFICULTY_ADJUSTMENT_BLOCKS + 1 \<le> length (chain slow_blocks)
   \<and> difficulty slow_blocks = 11 \<and> actualTime slow_blocks = 2640000
   \<and> supplyFactor demo slow_blocks = 1 \<and> timeFactor demo 0 slow_blocks = 1
   \<and> difficulty (adjustDifficulty demo 0 slow_blocks) = 14
   \<and> exact_formula demo 0 slow_blocks = 15"
  by code_simp

theorem difficulty_adjustment_in_doubles_witness:
  "length (chain (BlixnodeServer demo 0)) < DIFFICULTY_ADJUSTMENT_BLOCKS + 1
   \<and> adjustDifficulty demo 0 (BlixnodeServer demo 0) = BlixnodeServer demo 0
   \<and> DIFFICULTY_ADJUSTMENT_BLOCKS + 1 \<le> length (chain slow_blocks)
   \<and> actualTime slow_blocks \<noteq> 0
   \<and> difficulty (adjustDifficulty demo 0 slow_blocks) = 14
   \<and> DIFFICULTY_ADJUSTMENT_BLOCKS + 1 \<le> length (chain same_time_blocks)
   \<and> actualTime same_time_blocks = 0
   \<and> ratio same_time_blocks = 2
   \<and> difficulty (adjustDifficulty demo 0 same_time_blocks) = 6"
proof -
  have short: "length (chain (BlixnodeServer demo 0)) < DIFFICULTY_ADJUSTMENT_BLOCKS + 1"
    by (simp add: BlixnodeServer_fields DIFFICULTY_ADJUSTMENT_BLOCKS_def)
  have long: "DIFFICULTY_ADJUSTMENT_BLOCKS + 1 \<le> length (chain slow_blocks)"
    "DIFFICULTY_ADJUSTMENT_BLOCKS + 1 \<le> length (chain same_time_blocks)"
    by code_simp+
  have span: "actualTime slow_blocks \<noteq> 0" "actualTime same_time_blocks = 0"
    by code_simp+
  have evaluated:
    "max 1 \<lfloor>dmul (dmul (dmul (of_int (difficulty slow_blocks)) (ratio slow_blocks))
                       (supplyFactor demo slow_blocks)) (timeFactor demo 0 slow_blocks)\<rfloor> = 14"
    "max 1 \<lfloor>dmul (dmul (dmul (of_int (difficulty same_time_blocks)) (ratio same_time_blocks))
                       (supplyFactor demo same_time_blocks))
                 (timeFactor demo 0 same_time_blocks)\<rfloor> = 6"
    by code_simp+
  from difficulty_adjustment_in_doubles [of "BlixnodeServer demo 0" demo 0] short
  have 1: "adjustDifficulty demo 0 (BlixnodeServer demo 0) = BlixnodeServer demo 0"
    by blast
  from difficulty_adjustment_in_doubles [of slow_blocks demo 0] long(1)
  have 2: "difficulty (adjustDifficulty demo 0 slow_blocks) = 14"
    by (simp only: evaluated)
  from difficulty_adjustment_in_doubles [of same_time_blocks demo 0] long(2) span(2)
  have 3: "ratio same_time_blocks = 2 \<and> difficulty (adjustDifficulty demo 0 same_time_blocks) = 6"
    by (simp only: evaluated)
  from short long span 1 2 3 show ?thesis by blast
qed

end
